(* ===== verification/Prelude.thy ===== *)
theory Prelude
  imports Main
begin

text \<open>
  Shared vocabulary of the docs-agent development: the exceptions the
  program raises or propagates, the result type that carries them, the
  bind of that result type with its evaluation rules, and the generic
  lemmas on association lists that the workflow and the agents share.
  Every exception of the Python source is a constructor of \<open>py_error\<close>;
  an operation that may raise returns \<open>'a result\<close>, with \<open>Inl\<close> the
  exception.
\<close>

named_theorems res_simps "evaluation rules of the result bind"
named_theorems assoc_simps "lookup rules for the association lists of the model"

datatype py_error =
    RuntimeError string
      \<comment> \<open>\<open>raise RuntimeError(...)\<close> of \<open>create_workflow\<close>: missing configuration\<close>
  | ValueError string
      \<comment> \<open>rejected workflow construction (no start executor, duplicate executor id)\<close>
  | SchemaViolation string
      \<comment> \<open>a structured reply that does not validate against the response format\<close>
  | ToolNotPermitted string
      \<comment> \<open>the model asked for a tool operation outside every allow-list\<close>
  | UpstreamServiceError string
      \<comment> \<open>the inference endpoint or the MCP server failed\<close>
  | EOFError
      \<comment> \<open>\<open>input()\<close> at the end of standard input\<close>

type_synonym 'a result = "py_error + 'a"

definition res_bind :: "'a result \<Rightarrow> ('a \<Rightarrow> 'b result) \<Rightarrow> 'b result" where
  "res_bind r f = (case r of Inl e \<Rightarrow> Inl e | Inr a \<Rightarrow> f a)"

lemma res_bind_Inl [simp, res_simps]: "res_bind (Inl e) f = Inl e"
  by (simp add: res_bind_def)

lemma res_bind_Inr [simp, res_simps]: "res_bind (Inr a) f = f a"
  by (simp add: res_bind_def)

lemma res_bind_assoc [simp, res_simps]:
  "res_bind (res_bind r f) g = res_bind r (\<lambda>a. res_bind (f a) g)"
  by (cases r) auto

lemma res_bind_Inr_right [simp, res_simps]: "res_bind r Inr = r"
  by (cases r) auto

lemma res_bind_eq_Inr [res_simps]:
  "res_bind r f = Inr b \<longleftrightarrow> (\<exists>a. r = Inr a \<and> f a = Inr b)"
  by (cases r) auto

lemma res_bind_eq_Inl:
  "res_bind r f = Inl e \<longleftrightarrow> r = Inl e \<or> (\<exists>a. r = Inr a \<and> f a = Inl e)"
  by (cases r) auto

subsection \<open>Association lists keyed by identifiers\<close>

text \<open>
  Executors of a workflow are registered under their id in an association
  list, in registration order; \<open>map_of\<close> reads it.
\<close>

lemma map_of_append_new [assoc_simps]:
  "k \<notin> fst ` set xs \<Longrightarrow> map_of (xs @ [(k, v)]) k = Some v"
  by (induction xs) auto

lemma map_of_append_other [assoc_simps]:
  "k' \<noteq> k \<Longrightarrow> map_of (xs @ [(k, v)]) k' = map_of xs k'"
  by (induction xs) auto

lemma map_of_append_old [assoc_simps]:
  "map_of xs k = Some v \<Longrightarrow> map_of (xs @ ys) k = Some v"
  by (induction xs) auto

lemma map_of_append_fresh [assoc_simps]:
  "k \<notin> fst ` set F \<Longrightarrow> map_of (E @ F) k = map_of E k"
  by (induction E) (auto simp: map_of_eq_None_iff)

lemma map_of_Some_fst:
  "map_of xs k = Some v \<Longrightarrow> k \<in> fst ` set xs"
  by (metis domI dom_map_of_conv_image_fst)

text \<open>With distinct keys an entry is determined by its key.\<close>

lemma distinct_fst_eq:
  "distinct (map fst xs) \<Longrightarrow> x \<in> set xs \<Longrightarrow> y \<in> set xs \<Longrightarrow> fst x = fst y \<Longrightarrow> x = y"
  by (metis distinct_map inj_onD)

lemma map_of_distinct_member [assoc_simps]:
  "distinct (map fst xs) \<Longrightarrow> x \<in> set xs \<Longrightarrow> map_of xs (fst x) = Some (snd x)"
  by (simp add: map_of_is_SomeI)

end
