(* ===== verification/Workflow.thy ===== *)
theory Workflow
  imports Prelude
begin

text \<open>
  The workflow engine the repository builds its pipeline with
  (\<open>WorkflowBuilder\<close>, \<open>Workflow.run_stream\<close> of \<open>agent_framework\<close>), modelled
  from the contract of spec sections 3, 4.2 and 4.3 since the library is
  not part of the repository. It is generic in the payload \<open>'a\<close> of an
  executor (the agent it wraps) and in the message type \<open>'v\<close>: the agents
  are plugged in through a \<open>respond\<close> function, so every lemma here holds
  for any agent implementation.
  \<^item> builder: \<open>register\<close>, \<open>add_agent\<close>, \<open>add_edge\<close>, \<open>set_start_executor\<close>,
    \<open>build\<close>; the straight-line builder of spec 4.2 is \<open>build_chain\<close>;
    \<open>builder_wf\<close> and \<open>workflow_wf\<close> are their well-formedness, which
    every builder operation preserves. \<open>register\<close> tells two executors
    under one id apart by equality of the agents they wrap, where the
    library compares objects: two separately built but equal agents are
    accepted here and rejected by the library;
  \<^item> execution: \<open>walk\<close>/\<open>run_stream\<close>, a \<open>partial_function (option)\<close>
    (a cyclic graph makes it \<open>None\<close>), and the reference semantics
    \<open>pipeline\<close>, sequential composition of the agents.
\<close>

section \<open>Builder\<close>

type_synonym 'a executor = "string \<times> 'a"
  \<comment> \<open>executor id (the agent's name) and the agent it runs\<close>

record 'a workflow_builder =
  wb_executors :: "'a executor list"
  wb_edges :: "(string \<times> string) list"
  wb_start :: "string option"
  wb_outputs :: "string list"

record 'a workflow =
  wf_executors :: "'a executor list"
  wf_edges :: "(string \<times> string) list"
  wf_start :: string
  wf_outputs :: "string list"

definition empty_builder :: "'a workflow_builder" where
  "empty_builder = \<lparr>wb_executors = [], wb_edges = [], wb_start = None, wb_outputs = []\<rparr>"

text \<open>
  Registering an executor: a new id is appended; the same agent under the
  same id again is no change; another agent under a taken id is rejected,
  since executor ids are unique within a workflow (spec section 3).
\<close>

definition register :: "'a workflow_builder \<Rightarrow> 'a executor \<Rightarrow> 'a workflow_builder result" where
  "register b ex =
     (case map_of (wb_executors b) (fst ex) of
        None \<Rightarrow> Inr (b\<lparr>wb_executors := wb_executors b @ [ex]\<rparr>)
      | Some p \<Rightarrow> if p = snd ex then Inr b
                  else Inl (ValueError (''Duplicate executor ID: '' @ fst ex)))"

definition add_agent ::
  "'a workflow_builder \<Rightarrow> 'a executor \<Rightarrow> bool \<Rightarrow> 'a workflow_builder result" where
  "add_agent b ex output_response =
     res_bind (register b ex) (\<lambda>b'.
       Inr (if output_response \<and> fst ex \<notin> set (wb_outputs b')
            then b'\<lparr>wb_outputs := wb_outputs b' @ [fst ex]\<rparr> else b'))"

definition add_edge ::
  "'a workflow_builder \<Rightarrow> 'a executor \<Rightarrow> 'a executor \<Rightarrow> 'a workflow_builder result" where
  "add_edge b src tgt =
     res_bind (register b src) (\<lambda>b1.
     res_bind (register b1 tgt) (\<lambda>b2.
       Inr (b2\<lparr>wb_edges := wb_edges b2 @ [(fst src, fst tgt)]\<rparr>)))"

definition set_start_executor ::
  "'a workflow_builder \<Rightarrow> 'a executor \<Rightarrow> 'a workflow_builder result" where
  "set_start_executor b ex =
     res_bind (register b ex) (\<lambda>b'. Inr (b'\<lparr>wb_start := Some (fst ex)\<rparr>))"

definition build :: "'a workflow_builder \<Rightarrow> 'a workflow result" where
  "build b =
     (case wb_start b of
        None \<Rightarrow> Inl (ValueError ''Starting executor must be set before building the workflow'')
      | Some s \<Rightarrow> Inr \<lparr>wf_executors = wb_executors b, wf_edges = wb_edges b,
                       wf_start = s, wf_outputs = wb_outputs b\<rparr>)"

subsection \<open>The straight-line builder of spec 4.2\<close>

text \<open>
  \<open>build(agents)\<close>: the last agent is the sole output node, an edge joins each
  agent to the next, the first is the start; the operations are issued in
  the order \<open>create_documentation_workflow\<close> issues them.
\<close>

fun chain_edges :: "'a executor list \<Rightarrow> 'a workflow_builder \<Rightarrow> 'a workflow_builder result" where
  "chain_edges (x # y # zs) b = res_bind (add_edge b x y) (chain_edges (y # zs))"
| "chain_edges _ b = Inr b"

definition build_chain :: "'a executor list \<Rightarrow> 'a workflow result" where
  "build_chain xs =
     (if xs = [] then build empty_builder
      else res_bind (add_agent empty_builder (last xs) True) (\<lambda>b1.
           res_bind (chain_edges xs b1) (\<lambda>b2.
           res_bind (set_start_executor b2 (hd xs)) build)))"

text \<open>The shape of a straight-line workflow: consecutive ids as edges.\<close>

definition chain_shape :: "'a executor list \<Rightarrow> 'a workflow" where
  "chain_shape xs =
     \<lparr>wf_executors = last xs # butlast xs,
      wf_edges = zip (map fst xs) (tl (map fst xs)),
      wf_start = fst (hd xs),
      wf_outputs = [fst (last xs)]\<rparr>"

text \<open>An executor is compatible with a builder when registering it cannot clash.\<close>

definition compatible :: "'a executor list \<Rightarrow> 'a executor \<Rightarrow> bool" where
  "compatible E x \<longleftrightarrow> map_of E (fst x) = None \<or> map_of E (fst x) = Some (snd x)"

text \<open>
  Well-formedness of a builder and of a workflow: executor ids are
  unique, every edge, output and the start name a registered executor, and
  no output is listed twice.
\<close>

definition builder_wf :: "'a workflow_builder \<Rightarrow> bool" where
  "builder_wf b \<longleftrightarrow>
     (let ids = set (map fst (wb_executors b)) in
      distinct (map fst (wb_executors b)) \<and>
      list_all (\<lambda>(s, t). s \<in> ids \<and> t \<in> ids) (wb_edges b) \<and>
      list_all (\<lambda>n. n \<in> ids) (wb_outputs b) \<and> distinct (wb_outputs b) \<and>
      (case wb_start b of None \<Rightarrow> True | Some s \<Rightarrow> s \<in> ids))"

definition workflow_wf :: "'a workflow \<Rightarrow> bool" where
  "workflow_wf w \<longleftrightarrow>
     (let ids = set (map fst (wf_executors w)) in
      distinct (map fst (wf_executors w)) \<and>
      list_all (\<lambda>(s, t). s \<in> ids \<and> t \<in> ids) (wf_edges w) \<and>
      list_all (\<lambda>n. n \<in> ids) (wf_outputs w) \<and> distinct (wf_outputs w) \<and>
      wf_start w \<in> ids)"

text \<open>
  The pipeline invariant of spec section 3: the start followed by the
  targets of the edges is a path through every executor exactly once, each
  edge joins consecutive nodes of it (so the start has no incoming edge
  and the last node no outgoing one), and the last node is the only output.
\<close>

definition linear_pipeline :: "'a workflow \<Rightarrow> bool" where
  "linear_pipeline w \<longleftrightarrow>
     (let ns = wf_start w # map snd (wf_edges w) in
      distinct ns \<and> set ns = set (map fst (wf_executors w)) \<and> distinct (map fst (wf_executors w)) \<and>
      map fst (wf_edges w) = butlast ns \<and> wf_outputs w = [last ns])"

section \<open>Execution\<close>

text \<open>
  Events of one run, the discriminated union of spec section 3: the host
  sees every event and keeps the \<open>WorkflowOutputEvent\<close>s.
\<close>

datatype 'v run_event =
    ExecutorInvokedEvent string
  | ExecutorCompletedEvent string
  | WorkflowOutputEvent 'v

text \<open>
  The next executor: the target of the executor's outgoing edge (the first
  one, where a graph has several).
\<close>

definition successor :: "'a workflow \<Rightarrow> string \<Rightarrow> string option" where
  "successor w n = map_of (wf_edges w) n"

text \<open>
  One run (spec 4.3): invoke the executor on the message; a failure ends
  the stream with the exception; otherwise the executor's output is
  emitted when the executor is an output node and is sent along the
  outgoing edge, until an executor without one is reached. The stream is
  the events it yields and the exception it ends with, if any; \<open>None\<close>
  is a run that never ends (an agent that never answers, or a cycle).
\<close>

partial_function (option) walk ::
  "('a \<Rightarrow> 'v \<Rightarrow> 'v result option) \<Rightarrow> 'a workflow \<Rightarrow> string \<Rightarrow> 'v \<Rightarrow>
   ('v run_event list \<times> py_error option) option" where
  "walk respond w n msg =
     (case map_of (wf_executors w) n of
        None \<Rightarrow> Some ([], Some (ValueError (''Unknown executor: '' @ n)))
      | Some a \<Rightarrow> Option.bind (respond a msg) (\<lambda>r.
          case r of
            Inl e \<Rightarrow> Some ([ExecutorInvokedEvent n], Some e)
          | Inr out \<Rightarrow>
              (let evs = [ExecutorInvokedEvent n, ExecutorCompletedEvent n] @
                         (if n \<in> set (wf_outputs w) then [WorkflowOutputEvent out] else [])
               in case successor w n of
                    None \<Rightarrow> Some (evs, None)
                  | Some m \<Rightarrow> Option.bind (walk respond w m out)
                               (\<lambda>(evs', err). Some (evs @ evs', err)))))"

definition run_stream ::
  "('a \<Rightarrow> 'v \<Rightarrow> 'v result option) \<Rightarrow> 'a workflow \<Rightarrow> 'v \<Rightarrow>
   ('v run_event list \<times> py_error option) option" where
  "run_stream respond w msg = walk respond w (wf_start w) msg"

text \<open>
  \<open>patched_run_stream\<close> (agents-in-workflow/main.py): the replacement of
  \<open>Workflow.run_stream\<close> that takes extra keyword arguments, drops them and
  re-yields every event of the original.
\<close>

definition patched_run_stream ::
  "('a \<Rightarrow> 'v \<Rightarrow> 'v result option) \<Rightarrow> 'a workflow \<Rightarrow> 'v \<Rightarrow> (string \<times> 'k) list \<Rightarrow>
   ('v run_event list \<times> py_error option) option" where
  "patched_run_stream respond w message kwargs =
     run_stream respond w message"

text \<open>The data of the output events of a stream, in order.\<close>

fun output_data :: "'v run_event list \<Rightarrow> 'v list" where
  "output_data [] = []"
| "output_data (WorkflowOutputEvent d # evs) = d # output_data evs"
| "output_data (_ # evs) = output_data evs"

fun invoked :: "'v run_event list \<Rightarrow> string list" where
  "invoked [] = []"
| "invoked (ExecutorInvokedEvent n # evs) = n # invoked evs"
| "invoked (_ # evs) = invoked evs"

subsection \<open>Reference semantics\<close>

text \<open>
  What a straight-line pipeline promises: the agents composed in
  sequence, each one's output the next one's input, the first failure
  the result.
\<close>

fun pipeline :: "('a \<Rightarrow> 'v \<Rightarrow> 'v result option) \<Rightarrow> 'a list \<Rightarrow> 'v \<Rightarrow> 'v result option" where
  "pipeline respond [] v = Some (Inr v)"
| "pipeline respond (a # as) v =
     Option.bind (respond a v) (\<lambda>r. case r of Inl e \<Rightarrow> Some (Inl e)
                                           | Inr out \<Rightarrow> pipeline respond as out)"

text \<open>What the host observes of a stream: the output data, or the exception.\<close>

definition observe :: "'v run_event list \<times> py_error option \<Rightarrow> 'v list result" where
  "observe s = (case snd s of Some e \<Rightarrow> Inl e | None \<Rightarrow> Inr (output_data (fst s)))"

text \<open>What the reference semantics promises the host: the last output, or the exception.\<close>

definition observe_spec :: "'v result \<Rightarrow> 'v list result" where
  "observe_spec r = (case r of Inl e \<Rightarrow> Inl e | Inr out \<Rightarrow> Inr [out])"

text \<open>
  A straight-line run from executor \<open>x\<close> through \<open>ys\<close>: each is registered,
  each one's successor is the next, only the last is an output node and it
  has no successor.
\<close>

fun chain_at :: "'a workflow \<Rightarrow> 'a executor list \<Rightarrow> bool" where
  "chain_at w [] = False"
| "chain_at w [x] =
     (map_of (wf_executors w) (fst x) = Some (snd x) \<and> successor w (fst x) = None \<and>
      fst x \<in> set (wf_outputs w))"
| "chain_at w (x # y # zs) =
     (map_of (wf_executors w) (fst x) = Some (snd x) \<and> successor w (fst x) = Some (fst y) \<and>
      fst x \<notin> set (wf_outputs w) \<and> chain_at w (y # zs))"

section \<open>Builder lemmas\<close>

lemmas builder_defs = empty_builder_def register_def add_agent_def add_edge_def
  set_start_executor_def build_def build_chain_def chain_shape_def

lemma chain_shape_start [simp]: "wf_start (chain_shape xs) = fst (hd xs)"
  by (simp add: chain_shape_def)

lemma register_new:
  "map_of (wb_executors b) (fst x) = None \<Longrightarrow>
   register b x = Inr (b\<lparr>wb_executors := wb_executors b @ [x]\<rparr>)"
  by (simp add: register_def)

lemma register_known:
  "map_of (wb_executors b) (fst x) = Some (snd x) \<Longrightarrow> register b x = Inr b"
  by (simp add: register_def)

lemma register_clash:
  "map_of (wb_executors b) (fst x) = Some p \<Longrightarrow> p \<noteq> snd x \<Longrightarrow>
   register b x = Inl (ValueError (''Duplicate executor ID: '' @ fst x))"
  by (simp add: register_def)

text \<open>
  Registering a compatible executor: the executor list grows by the
  executor exactly when its id was new, and nothing else changes.
\<close>

lemma register_compatible:
  "compatible (wb_executors b) x \<Longrightarrow>
   register b x = Inr (b\<lparr>wb_executors := wb_executors b @
                         (if fst x \<in> fst ` set (wb_executors b) then [] else [x])\<rparr>)"
proof (cases "map_of (wb_executors b) (fst x)")
  case None
  then show ?thesis by (simp add: register_new map_of_eq_None_iff [symmetric])
next
  case (Some p)
  assume "compatible (wb_executors b) x"
  with Some have "p = snd x" by (simp add: compatible_def)
  moreover from Some have "fst x \<in> fst ` set (wb_executors b)"
    by (metis domI dom_map_of_conv_image_fst)
  ultimately show ?thesis using Some by (simp add: register_known)
qed

lemma compatible_append_other:
  "fst y \<notin> fst ` set F \<Longrightarrow> compatible (E @ F) y = compatible E y"
  by (simp add: compatible_def map_of_append_fresh del: map_of_append)

lemma map_of_register:
  "compatible E y \<Longrightarrow>
   map_of (E @ (if fst y \<in> fst ` set E then [] else [y])) (fst y) = Some (snd y)"
proof (cases "fst y \<in> fst ` set E")
  case True
  assume "compatible E y"
  with True show ?thesis
    by (auto simp: compatible_def map_of_eq_None_iff)
next
  case False
  then have "map_of (E @ [(fst y, snd y)]) (fst y) = Some (snd y)"
    by (rule map_of_append_new)
  then show ?thesis using False by (simp only: prod.collapse if_False)
qed

lemma filter_fresh_cong:
  "\<forall>z\<in>set zs. fst z \<notin> fst ` set F \<Longrightarrow>
   filter (\<lambda>z. fst z \<notin> fst ` set (E @ F)) zs = filter (\<lambda>z. fst z \<notin> fst ` set E) zs"
  by (rule filter_cong) auto

lemma chain_edges_result:
  "distinct (map fst ys) \<Longrightarrow> \<forall>y\<in>set ys. compatible (wb_executors b) y \<Longrightarrow>
   ys \<noteq> [] \<Longrightarrow> map_of (wb_executors b) (fst (last ys)) = Some (snd (last ys)) \<Longrightarrow>
   chain_edges ys b =
     Inr (b\<lparr>wb_executors := wb_executors b @ filter (\<lambda>y. fst y \<notin> fst ` set (wb_executors b)) ys,
            wb_edges := wb_edges b @ zip (map fst ys) (tl (map fst ys))\<rparr>)"
proof (induction ys b rule: chain_edges.induct)
  case (1 x y zs b)
  let ?E = "wb_executors b"
  let ?nx = "if fst x \<in> fst ` set ?E then [] else [x]"
  let ?ny = "if fst y \<in> fst ` set ?E then [] else [y]"
  let ?E2 = "?E @ ?nx @ ?ny"
  let ?b2 = "b\<lparr>wb_executors := ?E2, wb_edges := wb_edges b @ [(fst x, fst y)]\<rparr>"
  have xy: "fst y \<noteq> fst x" and zs: "\<forall>z\<in>set zs. fst z \<noteq> fst x \<and> fst z \<noteq> fst y"
    using "1.prems"(1) by (auto intro: rev_image_eqI)
  have rx: "register b x = Inr (b\<lparr>wb_executors := ?E @ ?nx\<rparr>)"
    using "1.prems"(2) by (simp add: register_compatible)
  have "compatible (?E @ ?nx) y"
    using "1.prems"(2) xy by (simp add: compatible_append_other)
  then have ry: "register (b\<lparr>wb_executors := ?E @ ?nx\<rparr>) y =
                 Inr (b\<lparr>wb_executors := ?E2\<rparr>)"
    using xy by (simp add: register_compatible)
  have edge: "add_edge b x y = Inr ?b2"
    by (simp add: add_edge_def rx ry)
  have y_in: "fst y \<in> fst ` set ?E2" by auto
  have compat2: "\<forall>z\<in>set (y # zs). compatible ?E2 z"
  proof
    fix z assume "z \<in> set (y # zs)"
    then consider "z = y" | "z \<in> set zs" by auto
    then show "compatible ?E2 z"
    proof cases
      case 1
      have "map_of ((?E @ ?nx) @ (if fst y \<in> fst ` set (?E @ ?nx) then [] else [y])) (fst y)
            = Some (snd y)"
        using \<open>compatible (?E @ ?nx) y\<close> by (rule map_of_register)
      moreover have "(fst y \<in> fst ` set (?E @ ?nx)) = (fst y \<in> fst ` set ?E)"
        using xy by auto
      ultimately have "map_of ?E2 (fst y) = Some (snd y)"
        by (simp only: append_assoc)
      with 1 show ?thesis by (simp only: compatible_def simp_thms)
    next
      case 2
      with zs have "fst z \<notin> fst ` set (?nx @ ?ny)" by auto
      then have "compatible (?E @ ?nx @ ?ny) z = compatible ?E z"
        by (rule compatible_append_other)
      with 2 "1.prems"(2) show ?thesis by simp
    qed
  qed
  have last2: "map_of ?E2 (fst (last (y # zs))) = Some (snd (last (y # zs)))"
    using "1.prems"(4) by (simp add: map_of_append_old)
  have IH: "chain_edges (y # zs) ?b2 =
      Inr (?b2\<lparr>wb_executors := ?E2 @ filter (\<lambda>z. fst z \<notin> fst ` set ?E2) (y # zs),
               wb_edges := wb_edges ?b2 @ zip (map fst (y # zs)) (tl (map fst (y # zs)))\<rparr>)"
    using "1.IH" [of ?b2] "1.prems"(1) compat2 last2 by simp
  have "filter (\<lambda>z. fst z \<notin> fst ` set ?E2) zs = filter (\<lambda>z. fst z \<notin> fst ` set ?E) zs"
    using zs by (intro filter_cong) auto
  with IH y_in show ?case
    by (simp add: edge)
qed (auto dest: map_of_Some_fst)

lemma filter_not_last:
  "xs \<noteq> [] \<Longrightarrow> distinct (map fst xs) \<Longrightarrow>
   filter (\<lambda>y. fst y \<notin> {fst (last xs)}) xs = butlast xs"
proof -
  assume ne: "xs \<noteq> []" and d: "distinct (map fst xs)"
  have split: "xs = butlast xs @ [last xs]" using ne by simp
  have "distinct (map fst (butlast xs) @ [fst (last xs)])"
    using d by (subst (asm) split) simp
  then have "\<forall>y\<in>set (butlast xs). fst y \<noteq> fst (last xs)" by (auto intro: rev_image_eqI)
  then have "filter (\<lambda>y. fst y \<notin> {fst (last xs)}) (butlast xs) = butlast xs" by simp
  then show ?thesis by (subst split) simp
qed

lemma build_chain_shape:
  "xs \<noteq> [] \<Longrightarrow> distinct (map fst xs) \<Longrightarrow> build_chain xs = Inr (chain_shape xs)"
proof -
  assume ne: "xs \<noteq> []" and d: "distinct (map fst xs)"
  let ?b1 = "(empty_builder :: 'a workflow_builder)\<lparr>wb_executors := [last xs], wb_outputs := [fst (last xs)]\<rparr>"
  have a1: "add_agent empty_builder (last xs) True = Inr ?b1"
    by (simp add: add_agent_def register_def empty_builder_def)
  have compat: "\<forall>y\<in>set xs. compatible [last xs] y"
  proof
    fix y assume y: "y \<in> set xs"
    show "compatible [last xs] y"
    proof (cases "fst y = fst (last xs)")
      case True
      with d y ne have "y = last xs" by (simp add: distinct_fst_eq)
      then show ?thesis by (simp add: compatible_def)
    next
      case False
      then show ?thesis by (simp add: compatible_def)
    qed
  qed
  have c2: "chain_edges xs ?b1 =
    Inr (?b1\<lparr>wb_executors := last xs # butlast xs, wb_edges := zip (map fst xs) (tl (map fst xs))\<rparr>)"
    using chain_edges_result [of xs ?b1] d compat ne filter_not_last [OF ne d]
    by (simp add: empty_builder_def)
  have "distinct (map fst (butlast xs @ [last xs]))" using d ne by simp
  then have d2: "distinct (map fst (last xs # butlast xs))" by auto
  have "hd xs \<in> set (last xs # butlast xs)"
    using ne by (metis append_butlast_last_id hd_in_set rotate1.simps(2) set_rotate1)
  then have "map_of (last xs # butlast xs) (fst (hd xs)) = Some (snd (hd xs))"
    using d2 by (simp add: map_of_is_SomeI del: map_of.simps)
  then have s: "set_start_executor
      (?b1\<lparr>wb_executors := last xs # butlast xs, wb_edges := zip (map fst xs) (tl (map fst xs))\<rparr>) (hd xs) =
      Inr (?b1\<lparr>wb_executors := last xs # butlast xs, wb_edges := zip (map fst xs) (tl (map fst xs)),
                wb_start := Some (fst (hd xs))\<rparr>)"
    by (simp add: set_start_executor_def register_def del: map_of.simps)
  show ?thesis
    using ne a1 c2 s
    by (simp add: build_chain_def build_def chain_shape_def empty_builder_def)
qed


subsection \<open>Every builder operation preserves well-formedness\<close>

lemma builder_wf_empty: "builder_wf empty_builder"
  by (simp add: builder_wf_def empty_builder_def)

lemma register_wf:
  assumes "builder_wf b" and "register b ex = Inr b'"
  shows "builder_wf b'" and "fst ex \<in> set (map fst (wb_executors b'))"
    and "set (map fst (wb_executors b)) \<subseteq> set (map fst (wb_executors b'))"
    and "wb_edges b' = wb_edges b" "wb_outputs b' = wb_outputs b" "wb_start b' = wb_start b"
proof -
  have "builder_wf b' \<and> fst ex \<in> set (map fst (wb_executors b')) \<and>
        set (map fst (wb_executors b)) \<subseteq> set (map fst (wb_executors b')) \<and>
        wb_edges b' = wb_edges b \<and> wb_outputs b' = wb_outputs b \<and> wb_start b' = wb_start b"
  proof (cases "map_of (wb_executors b) (fst ex)")
    case None
    with assms have b': "b' = b\<lparr>wb_executors := wb_executors b @ [ex]\<rparr>"
      by (simp add: register_def)
    from None have "fst ex \<notin> set (map fst (wb_executors b))"
      by (simp add: map_of_eq_None_iff)
    with assms(1) show ?thesis
      by (auto simp: b' builder_wf_def Let_def list_all_iff split: option.splits)
  next
    case (Some p)
    with assms have b': "b' = b" by (simp add: register_def split: if_splits)
    from Some have "fst ex \<in> set (map fst (wb_executors b))"
      by (auto dest: map_of_SomeD intro: rev_image_eqI)
    with assms(1) show ?thesis by (simp add: b')
  qed
  then show "builder_wf b'" "fst ex \<in> set (map fst (wb_executors b'))"
    "set (map fst (wb_executors b)) \<subseteq> set (map fst (wb_executors b'))"
    "wb_edges b' = wb_edges b" "wb_outputs b' = wb_outputs b" "wb_start b' = wb_start b"
    by simp_all
qed

lemma builder_wf_add_output:
  "builder_wf b \<Longrightarrow> n \<in> set (map fst (wb_executors b)) \<Longrightarrow> n \<notin> set (wb_outputs b) \<Longrightarrow>
   builder_wf (b\<lparr>wb_outputs := wb_outputs b @ [n]\<rparr>)"
  by (simp add: builder_wf_def Let_def)

lemma builder_wf_add_edge:
  "builder_wf b \<Longrightarrow> s \<in> set (map fst (wb_executors b)) \<Longrightarrow> t \<in> set (map fst (wb_executors b)) \<Longrightarrow>
   builder_wf (b\<lparr>wb_edges := wb_edges b @ [(s, t)]\<rparr>)"
  by (simp add: builder_wf_def Let_def)

lemma builder_wf_set_start:
  "builder_wf b \<Longrightarrow> s \<in> set (map fst (wb_executors b)) \<Longrightarrow> builder_wf (b\<lparr>wb_start := Some s\<rparr>)"
  by (simp add: builder_wf_def Let_def)

lemma add_agent_wf:
  assumes "builder_wf b" and "add_agent b ex flag = Inr b'"
  shows "builder_wf b'"
proof -
  from assms(2) obtain b1 where r: "register b ex = Inr b1"
    and b': "b' = (if flag \<and> fst ex \<notin> set (wb_outputs b1)
                   then b1\<lparr>wb_outputs := wb_outputs b1 @ [fst ex]\<rparr> else b1)"
    by (auto simp: add_agent_def res_bind_eq_Inr)
  show ?thesis
    using register_wf(1,2) [OF assms(1) r] builder_wf_add_output [of b1 "fst ex"] by (simp add: b')
qed

lemma add_edge_wf:
  assumes "builder_wf b" and "add_edge b src tgt = Inr b'"
  shows "builder_wf b'"
proof -
  from assms(2) obtain b1 b2 where r1: "register b src = Inr b1" and r2: "register b1 tgt = Inr b2"
    and b': "b' = b2\<lparr>wb_edges := wb_edges b2 @ [(fst src, fst tgt)]\<rparr>"
    by (auto simp: add_edge_def res_bind_eq_Inr)
  have wf1: "builder_wf b1" by (rule register_wf(1) [OF assms(1) r1])
  have src: "fst src \<in> set (map fst (wb_executors b2))"
    using register_wf(2) [OF assms(1) r1] register_wf(3) [OF wf1 r2] by blast
  show ?thesis
    unfolding b' by (rule builder_wf_add_edge [OF register_wf(1) [OF wf1 r2] src register_wf(2) [OF wf1 r2]])
qed

lemma set_start_executor_wf:
  assumes "builder_wf b" and "set_start_executor b ex = Inr b'"
  shows "builder_wf b'"
proof -
  from assms(2) obtain b1 where r: "register b ex = Inr b1" and b': "b' = b1\<lparr>wb_start := Some (fst ex)\<rparr>"
    by (auto simp: set_start_executor_def res_bind_eq_Inr)
  from register_wf(1,2) [OF assms(1) r] show ?thesis
    unfolding b' by (rule builder_wf_set_start)
qed

lemma build_wf:
  assumes "builder_wf b" and "build b = Inr w"
  shows "workflow_wf w"
proof (cases "wb_start b")
  case None
  with assms(2) show ?thesis by (simp add: build_def)
next
  case (Some s)
  with assms(2) have "w = \<lparr>wf_executors = wb_executors b, wf_edges = wb_edges b,
                            wf_start = s, wf_outputs = wb_outputs b\<rparr>"
    by (simp add: build_def)
  with Some assms(1) show ?thesis by (simp add: builder_wf_def workflow_wf_def Let_def)
qed

subsection \<open>The straight-line builder gives a linear pipeline\<close>

lemma map_fst_zip_tl: "map fst (zip xs (tl xs)) = butlast xs"
  by (induction xs rule: induct_list012) simp_all

lemma map_snd_zip_tl: "map snd (zip xs (tl xs)) = tl xs"
  by (induction xs rule: induct_list012) simp_all

lemma chain_shape_linear:
  assumes "xs \<noteq> []" and "distinct (map fst xs)"
  shows "linear_pipeline (chain_shape xs)"
proof -
  have ids: "fst (hd xs) # tl (map fst xs) = map fst xs" using assms(1) by (cases xs) simp_all
  obtain ys y where xs: "xs = ys @ [y]" using assms(1) by (cases xs rule: rev_cases) auto
  have "set (map fst xs) = set (map fst (last xs # butlast xs))"
   and "distinct (map fst (last xs # butlast xs))"
    using assms(2) by (auto simp: xs)
  moreover have "last (map fst xs) = fst (last xs)" using assms(1) by (simp add: last_map)
  ultimately show ?thesis
    using assms ids
    by (simp add: linear_pipeline_def chain_shape_def map_fst_zip_tl map_snd_zip_tl Let_def)
qed

section \<open>Execution lemmas\<close>

lemma output_data_append [simp]: "output_data (xs @ ys) = output_data xs @ output_data ys"
  by (induction xs rule: output_data.induct) auto

lemma invoked_append [simp]: "invoked (xs @ ys) = invoked xs @ invoked ys"
  by (induction xs rule: invoked.induct) auto

lemma observe_cons_step:
  "observe (ExecutorInvokedEvent n # ExecutorCompletedEvent n # evs, err) = observe (evs, err)"
  by (simp add: observe_def split: option.split)

lemma observe_bind_step:
  "map_option observe
     (Option.bind s (\<lambda>(evs', err). Some (ExecutorInvokedEvent n # ExecutorCompletedEvent n # evs', err)))
   = map_option observe s"
  by (cases s) (auto simp: observe_cons_step)

lemma walk_chain:
  "chain_at w ys \<Longrightarrow>
   map_option observe (walk respond w (fst (hd ys)) v) =
   map_option observe_spec (pipeline respond (map snd ys) v)"
proof (induction w ys arbitrary: v rule: chain_at.induct)
  case (1 w)
  then show ?case by simp
next
  case (2 w x)
  then show ?case
    by (subst walk.simps, cases "respond (snd x) v")
       (auto simp: observe_def observe_spec_def split: sum.splits)
next
  case (3 w x y zs)
  show ?case
  proof (cases "respond (snd x) v")
    case None
    with "3.prems" show ?thesis by (subst walk.simps) simp
  next
    case (Some r)
    show ?thesis
    proof (cases r)
      case (Inl e)
      with Some "3.prems" show ?thesis
        by (subst walk.simps) (simp add: observe_def observe_spec_def)
    next
      case (Inr out)
      have IH: "map_option observe (walk respond w (fst y) out) =
                map_option observe_spec (pipeline respond (map snd (y # zs)) out)"
        using "3.IH" "3.prems" by simp
      have "map_option observe (walk respond w (fst x) v) =
            map_option observe (walk respond w (fst y) out)"
        using Some Inr "3.prems"
        by (subst walk.simps) (simp add: observe_bind_step)
      with IH Some Inr show ?thesis by simp
    qed
  qed
qed


lemma chain_at_intro:
  "distinct (map fst ys) \<Longrightarrow> ys \<noteq> [] \<Longrightarrow>
   \<forall>y\<in>set ys. map_of (wf_executors w) (fst y) = Some (snd y) \<Longrightarrow>
   \<forall>y\<in>set ys. successor w (fst y) = map_of (zip (map fst ys) (tl (map fst ys))) (fst y) \<Longrightarrow>
   wf_outputs w = [fst (last ys)] \<Longrightarrow> chain_at w ys"
proof (induction w ys rule: chain_at.induct)
  case (1 w)
  then show ?case by simp
next
  case (2 w x)
  then show ?case by simp
next
  case (3 w x y zs)
  have "fst x \<notin> fst ` set (y # zs)" using "3.prems"(1) by simp
  then have ne: "\<forall>z\<in>set (y # zs). fst z \<noteq> fst x" by (auto intro: rev_image_eqI)
  have "chain_at w (y # zs)"
    using "3.IH" "3.prems" ne by simp
  moreover have "fst x \<noteq> fst (last (y # zs))"
    using ne by (metis last_in_set list.distinct(1))
  ultimately show ?case using "3.prems" by simp
qed

lemma chain_shape_chain_at:
  "xs \<noteq> [] \<Longrightarrow> distinct (map fst xs) \<Longrightarrow> chain_at (chain_shape xs) xs"
proof (rule chain_at_intro)
  assume ne: "xs \<noteq> []" and d: "distinct (map fst xs)"
  have "distinct (map fst (butlast xs @ [last xs]))" using d ne by simp
  then have d2: "distinct (map fst (last xs # butlast xs))" by auto
  have "set (last xs # butlast xs) = set xs"
    using ne by (metis append_butlast_last_id rotate1.simps(2) set_rotate1)
  with d2 show "\<forall>y\<in>set xs. map_of (wf_executors (chain_shape xs)) (fst y) = Some (snd y)"
    by (simp add: chain_shape_def map_of_distinct_member del: map_of.simps)
qed (simp_all add: chain_shape_def successor_def)

lemma walk_chain_invoked:
  "chain_at w ys \<Longrightarrow> pipeline respond (map snd ys) v = Some (Inr out) \<Longrightarrow>
   \<exists>evs. walk respond w (fst (hd ys)) v = Some (evs, None) \<and>
         invoked evs = map fst ys \<and> output_data evs = [out]"
proof (induction w ys arbitrary: v rule: chain_at.induct)
  case (1 w)
  then show ?case by simp
next
  case (2 w x)
  from "2.prems"(2) have "respond (snd x) v = Some (Inr out)"
    by (auto split: Option.bind_splits sum.splits)
  with "2.prems"(1) show ?case by (subst walk.simps) simp
next
  case (3 w x y zs)
  from "3.prems"(2) obtain mid where
    r: "respond (snd x) v = Some (Inr mid)" and
    p: "pipeline respond (map snd (y # zs)) mid = Some (Inr out)"
    by (auto split: Option.bind_splits sum.splits)
  from "3.IH" "3.prems"(1) p obtain evs where
    "walk respond w (fst y) mid = Some (evs, None)" "invoked evs = map fst (y # zs)"
    "output_data evs = [out]"
    by auto
  with r "3.prems"(1) show ?case
    by (subst walk.simps) simp
qed

text \<open>
  A run of a chain invokes a prefix of the chain, each executor at most
  once and in order, and emits at most two events per executor and one
  output (spec 4.3: the sequence is bounded by the number of nodes).
\<close>

lemma walk_chain_bounds:
  "chain_at w ys \<Longrightarrow> walk respond w (fst (hd ys)) v = Some (evs, err) \<Longrightarrow>
   (\<exists>k. 0 < k \<and> k \<le> length ys \<and> invoked evs = take k (map fst ys)) \<and>
   length evs \<le> 2 * length ys + 1 \<and> length (output_data evs) \<le> 1"
proof (induction w ys arbitrary: v evs err rule: chain_at.induct)
  case (1 w)
  then show ?case by simp
next
  case (2 w x)
  have c: "map_of (wf_executors w) (fst x) = Some (snd x)" "successor w (fst x) = None"
    "fst x \<in> set (wf_outputs w)" using "2.prems"(1) by simp_all
  obtain r where r: "respond (snd x) v = Some r"
    using "2.prems"(2) c by (cases "respond (snd x) v") (simp_all add: walk.simps)
  have "evs = [ExecutorInvokedEvent (fst x)] \<or>
        evs = [ExecutorInvokedEvent (fst x), ExecutorCompletedEvent (fst x), WorkflowOutputEvent (projr r)]"
    using "2.prems"(2) c r by (cases r) (simp_all add: walk.simps)
  then show ?case by (elim disjE) (simp_all add: exI [of _ 1])
next
  case (3 w x y zs)
  have c: "map_of (wf_executors w) (fst x) = Some (snd x)" "successor w (fst x) = Some (fst y)"
    "fst x \<notin> set (wf_outputs w)" "chain_at w (y # zs)" using "3.prems"(1) by simp_all
  obtain r where r: "respond (snd x) v = Some r"
    using "3.prems"(2) c by (cases "respond (snd x) v") (simp_all add: walk.simps)
  show ?case
  proof (cases r)
    case (Inl e)
    with "3.prems"(2) c r have "evs = [ExecutorInvokedEvent (fst x)]" by (simp add: walk.simps)
    then show ?thesis by (simp add: exI [of _ 1])
  next
    case (Inr out)
    with "3.prems"(2) c r obtain evs' where
      rest: "walk respond w (fst y) out = Some (evs', err)" and
      evs: "evs = [ExecutorInvokedEvent (fst x), ExecutorCompletedEvent (fst x)] @ evs'"
      by (cases "walk respond w (fst y) out") (auto simp: walk.simps [of _ _ "fst x"])
    have "(\<exists>k. 0 < k \<and> k \<le> length (y # zs) \<and> invoked evs' = take k (map fst (y # zs))) \<and>
          length evs' \<le> 2 * length (y # zs) + 1 \<and> length (output_data evs') \<le> 1"
      using "3.IH" [OF c(4)] rest by simp
    then obtain k where "0 < k" "k \<le> length (y # zs)" "invoked evs' = take k (map fst (y # zs))"
      "length evs' \<le> 2 * length (y # zs) + 1" "length (output_data evs') \<le> 1"
      by blast
    with evs show ?thesis by (intro conjI exI [of _ "Suc k"]) simp_all
  qed
qed

lemma pipeline_total:
  "\<forall>a\<in>set as. \<forall>u. respond a u \<noteq> None \<Longrightarrow> \<exists>r. pipeline respond as v = Some r"
proof (induction as arbitrary: v)
  case Nil
  then show ?case by simp
next
  case (Cons a as)
  from Cons.prems have "respond a v \<noteq> None" by simp
  then obtain r where r: "respond a v = Some r" by blast
  show ?case
  proof (cases r)
    case (Inl e)
    with r show ?thesis by simp
  next
    case (Inr out)
    with r Cons show ?thesis by simp
  qed
qed


lemma walk_self_loop_None:
  assumes a: "map_of (wf_executors w) n = Some a" and loop: "successor w n = Some n"
    and ans: "\<forall>u. \<exists>out. respond a u = Some (Inr out)"
  shows "walk respond w n v = None"
proof (rule ccontr)
  assume "walk respond w n v \<noteq> None"
  then obtain r where r: "walk respond w n v = Some r" by blast
  have "respond = respond \<longrightarrow> w = w \<longrightarrow> n = n \<longrightarrow> False"
  proof (rule walk.raw_induct
      [where P = "\<lambda>rs w' n' msg r. rs = respond \<longrightarrow> w' = w \<longrightarrow> n' = n \<longrightarrow> False", OF _ r])
    fix f rs w' n' msg r'
    assume IH: "\<And>x1 x2 x3 x4 y. f x1 x2 x3 x4 = Some y \<Longrightarrow>
                  x1 = respond \<longrightarrow> x2 = w \<longrightarrow> x3 = n \<longrightarrow> False"
      and body: "(case map_of (wf_executors w') n' of
         None \<Rightarrow> Some ([], Some (ValueError (''Unknown executor: '' @ n')))
       | Some a \<Rightarrow> Option.bind (rs a msg) (\<lambda>r.
           case r of
             Inl e \<Rightarrow> Some ([ExecutorInvokedEvent n'], Some e)
           | Inr out \<Rightarrow>
               (let evs = [ExecutorInvokedEvent n', ExecutorCompletedEvent n'] @
                          (if n' \<in> set (wf_outputs w') then [WorkflowOutputEvent out] else [])
                in case successor w' n' of
                     None \<Rightarrow> Some (evs, None)
                   | Some m \<Rightarrow> Option.bind (f rs w' m out)
                                (\<lambda>(evs', err). Some (evs @ evs', err))))) = Some r'"
    show "rs = respond \<longrightarrow> w' = w \<longrightarrow> n' = n \<longrightarrow> False"
    proof (intro impI)
      assume eqs: "rs = respond" "w' = w" "n' = n"
      from ans obtain out where out: "respond a msg = Some (Inr out)" by blast
      from body have "\<exists>y. f respond w n out = Some y"
        using eqs a out loop by (auto simp: Let_def split: Option.bind_splits)
      then show False using IH by blast
    qed
  qed
  then show False by simp
qed

text \<open>A built chain of distinct executors is a chain from its start.\<close>

lemma built_chain_at:
  assumes "xs \<noteq> []" and "distinct (map fst xs)" and "build_chain xs = Inr w"
  shows "chain_at w xs \<and> wf_start w = fst (hd xs)"
proof -
  from assms have w: "w = chain_shape xs" by (simp add: build_chain_shape)
  have "chain_at (chain_shape xs) xs" using assms(1,2) by (rule chain_shape_chain_at)
  with w show ?thesis by (simp add: chain_shape_def)
qed

section \<open>Properties of straight-line workflows\<close>

text \<open>
  The contract of spec 4.2, 4.3 and 8 for any sequence of agents; the
  documentation workflow of the repository inherits them (theory
  Documentation).
\<close>

text \<open>
  running a workflow built by the
  straight-line builder from distinct executors implements the reference
  pipeline: the host observes exactly the last agent's output when every
  agent succeeds, the first failure otherwise, and the run diverges
  exactly when an agent of the sequence never answers.
\<close>

theorem run_stream_refines_pipeline:
  assumes "xs \<noteq> []" and "distinct (map fst xs)" and "build_chain xs = Inr w"
  shows "map_option observe (run_stream respond w v) =
         map_option observe_spec (pipeline respond (map snd xs) v)"
  using built_chain_at [OF assms] by (simp add: run_stream_def walk_chain)

theorem run_stream_refines_pipeline_witness:
  "map_option observe
     (run_stream (\<lambda>a v. Some (Inr (10 * v + a)))
        (chain_shape [(''rewrite'', 1::nat), (''docs'', 2), (''summarize'', 3)]) 0)
   = Some (Inr [123])"
proof -
  have "map_option observe
          (run_stream (\<lambda>a v. Some (Inr (10 * v + a)))
             (chain_shape [(''rewrite'', 1::nat), (''docs'', 2), (''summarize'', 3)]) (0::nat)) =
        map_option observe_spec
          (pipeline (\<lambda>a v. Some (Inr (10 * v + a)))
             (map snd [(''rewrite'', 1::nat), (''docs'', 2), (''summarize'', 3)]) 0)"
    by (rule run_stream_refines_pipeline) (simp_all add: builder_defs)
  then show ?thesis by (simp add: observe_spec_def)
qed

text \<open>
  for every sequence of N \<open>\<ge>\<close> 1
  agents with distinct names, the built workflow starts at the first agent
  and its sole output node is the last agent (spec section 8).
\<close>

theorem build_chain_start_output:
  assumes "xs \<noteq> []" and "distinct (map fst xs)" and "build_chain xs = Inr w"
  shows "wf_start w = fst (hd xs) \<and> wf_outputs w = [fst (last xs)]"
  using build_chain_shape [OF assms(1,2)] assms(3) by (simp add: chain_shape_def)

theorem build_chain_start_output_witness:
  "wf_start (chain_shape [(''rewrite'', 1::nat), (''docs'', 2), (''summarize'', 3)]) = ''rewrite'' \<and>
   wf_outputs (chain_shape [(''rewrite'', 1::nat), (''docs'', 2), (''summarize'', 3)]) = [''summarize'']"
  using build_chain_start_output
    [of "[(''rewrite'', 1::nat), (''docs'', 2), (''summarize'', 3)]"
        "chain_shape [(''rewrite'', 1::nat), (''docs'', 2), (''summarize'', 3)]"]
  by (simp add: builder_defs)

text \<open>
  when every agent of a chain of N
  agents succeeds, the stream ends normally, invokes the N executors in
  order (N - 1 transitions) and carries exactly one output event, with the
  pipeline's result.
\<close>

theorem run_stream_chain_events:
  assumes "xs \<noteq> []" and "distinct (map fst xs)" and "build_chain xs = Inr w"
    and "pipeline respond (map snd xs) v = Some (Inr out)"
  shows "\<exists>evs. run_stream respond w v = Some (evs, None) \<and>
               invoked evs = map fst xs \<and> output_data evs = [out]"
  using built_chain_at [OF assms(1-3)] walk_chain_invoked [of w xs respond v out] assms(4)
  by (simp add: run_stream_def)

theorem run_stream_chain_events_witness:
  "\<exists>evs. run_stream (\<lambda>a v. Some (Inr (10 * v + a)))
          (chain_shape [(''rewrite'', 1::nat), (''docs'', 2), (''summarize'', 3)]) 0 = Some (evs, None) \<and>
        invoked evs = [''rewrite'', ''docs'', ''summarize''] \<and> output_data evs = [123]"
  using run_stream_chain_events
    [of "[(''rewrite'', 1::nat), (''docs'', 2), (''summarize'', 3)]"
        "chain_shape [(''rewrite'', 1::nat), (''docs'', 2), (''summarize'', 3)]"
        "\<lambda>a v. Some (Inr (10 * v + a))" 0 123]
  by (simp add: builder_defs)

text \<open>
  the run of a straight-line
  workflow of distinct agents ends whenever every agent answers: the
  stream is finite, bounded by the number of nodes (spec 4.3).
\<close>

theorem run_stream_chain_terminates:
  assumes "xs \<noteq> []" and "distinct (map fst xs)" and "build_chain xs = Inr w"
    and "\<forall>a\<in>set (map snd xs). \<forall>u. respond a u \<noteq> None"
  shows "\<exists>s. run_stream respond w v = Some s"
proof -
  from pipeline_total [OF assms(4)]
  obtain r where p: "pipeline respond (map snd xs) v = Some r" by blast
  from built_chain_at [OF assms(1-3)]
  have c: "chain_at w xs" and st: "wf_start w = fst (hd xs)" by simp_all
  from walk_chain [OF c, of respond v] p
  have "map_option observe (walk respond w (fst (hd xs)) v) = Some (observe_spec r)"
    by simp
  then obtain s where "walk respond w (fst (hd xs)) v = Some s"
    by (cases "walk respond w (fst (hd xs)) v") simp_all
  with st show ?thesis by (simp add: run_stream_def)
qed

theorem run_stream_chain_terminates_witness:
  "\<exists>s. run_stream (\<lambda>a v. Some (Inr (10 * v + a)))
         (chain_shape [(''rewrite'', 1::nat), (''docs'', 2), (''summarize'', 3)]) 0 = Some s"
  using run_stream_chain_terminates
    [of "[(''rewrite'', 1::nat), (''docs'', 2), (''summarize'', 3)]"
        "chain_shape [(''rewrite'', 1::nat), (''docs'', 2), (''summarize'', 3)]"
        "\<lambda>a v. Some (Inr (10 * v + a))" 0]
  by (simp add: builder_defs)

text \<open>
  the straight-line builder accepts
  a sequence that repeats an agent (re-registering the same agent is no
  change), and the workflow it builds has a self-loop: its run never ends
  even though the agent always answers. Distinct names are what makes the
  chain a simple path.
\<close>

theorem build_chain_repeat_diverges:
  assumes "\<forall>u. \<exists>out. respond (snd x) u = Some (Inr out)"
  shows "\<exists>w. build_chain [x, x] = Inr w \<and> run_stream respond w v = None"
proof -
  let ?w = "\<lparr>wf_executors = [x], wf_edges = [(fst x, fst x)], wf_start = fst x,
             wf_outputs = [fst x]\<rparr>"
  have "build_chain [x, x] = Inr ?w" by (simp add: builder_defs)
  moreover have "walk respond ?w (fst x) v = None"
    by (rule walk_self_loop_None [where a = "snd x"]) (simp_all add: successor_def assms)
  ultimately show ?thesis by (auto simp: run_stream_def)
qed

theorem build_chain_repeat_diverges_witness:
  "\<exists>w. build_chain [(''summarize'', 3::nat), (''summarize'', 3)] = Inr w \<and>
       run_stream (\<lambda>a v. Some (Inr (Suc v))) w (0::nat) = None"
  by (rule build_chain_repeat_diverges) simp

end
