(* ===== verification/Responses.thy ===== *)
theory Responses
  imports Prelude
begin

text \<open>
  The structured output of the documentation agent: \<open>DocsResponse\<close> of
  src/models/responses.py, a pydantic model with a string \<open>answer\<close> and a
  list of string \<open>sources\<close>. A reply of the inference service is a JSON
  value (\<open>json\<close>); \<open>validate_docs_response\<close> is the model's validation
  (an object, both fields present with their types, other keys ignored, a
  repeated key read at its last occurrence as Python's json module reads
  it) and \<open>dump_docs_response\<close> its \<open>model_dump\<close>. Validation reports the
  first failing field where pydantic collects all of them; the failure is
  the \<open>SchemaViolation\<close> of spec section 4.1 either way. \<open>json_text\<close>
  is the text a message shows when printed or handed to the next agent:
  a string is shown as it is, any other value as its JSON form.
\<close>

datatype json =
    JNull
  | JBool bool
  | JInt int
  | JStr string
  | JArr "json list"
  | JObj "(string \<times> json) list"

record docs_response =
  answer :: string
  sources :: "string list"

definition json_field :: "(string \<times> json) list \<Rightarrow> string \<Rightarrow> json option" where
  "json_field kvs k = map_of (rev kvs) k"

fun json_str :: "json \<Rightarrow> string option" where
  "json_str (JStr s) = Some s"
| "json_str _ = None"

fun json_str_list :: "json \<Rightarrow> string list option" where
  "json_str_list (JArr xs) = those (map json_str xs)"
| "json_str_list _ = None"

definition validate_docs_response :: "json \<Rightarrow> docs_response result" where
  "validate_docs_response j =
     (case j of
        JObj kvs \<Rightarrow>
          (case json_field kvs ''answer'' of
             None \<Rightarrow> Inl (SchemaViolation ''answer: Field required'')
           | Some a \<Rightarrow>
               (case json_str a of
                  None \<Rightarrow> Inl (SchemaViolation ''answer: Input should be a valid string'')
                | Some ans \<Rightarrow>
                    (case json_field kvs ''sources'' of
                       None \<Rightarrow> Inl (SchemaViolation ''sources: Field required'')
                     | Some sj \<Rightarrow>
                         (case json_str_list sj of
                            None \<Rightarrow> Inl (SchemaViolation
                                      ''sources: Input should be a valid list of strings'')
                          | Some srcs \<Rightarrow> Inr \<lparr>answer = ans, sources = srcs\<rparr>))))
      | _ \<Rightarrow> Inl (SchemaViolation ''Input should be a valid dictionary''))"

definition dump_docs_response :: "docs_response \<Rightarrow> json" where
  "dump_docs_response r =
     JObj [(''answer'', JStr (answer r)), (''sources'', JArr (map JStr (sources r)))]"

subsection \<open>Text of a message\<close>

fun digit_char :: "nat \<Rightarrow> char" where
  "digit_char d = char_of (48 + d)"

fun nat_str :: "nat \<Rightarrow> string" where
  "nat_str n = (if n < 10 then [digit_char n] else nat_str (n div 10) @ [digit_char (n mod 10)])"

definition int_str :: "int \<Rightarrow> string" where
  "int_str i = (if i < 0 then CHR ''-'' # nat_str (nat (- i)) else nat_str (nat i))"

fun json_escape :: "string \<Rightarrow> string" where
  "json_escape [] = []"
| "json_escape (c # cs) =
     (if c = CHR ''\"'' \<or> c = CHR 0x5C then [CHR 0x5C, c] else [c]) @ json_escape cs"

fun join_with :: "string \<Rightarrow> string list \<Rightarrow> string" where
  "join_with sep [] = []"
| "join_with sep [x] = x"
| "join_with sep (x # y # zs) = x @ sep @ join_with sep (y # zs)"

fun json_repr :: "json \<Rightarrow> string" where
  "json_repr JNull = ''null''"
| "json_repr (JBool b) = (if b then ''true'' else ''false'')"
| "json_repr (JInt i) = int_str i"
| "json_repr (JStr s) = CHR ''\"'' # json_escape s @ ''\"''"
| "json_repr (JArr xs) = ''['' @ join_with '', '' (map json_repr xs) @ '']''"
| "json_repr (JObj kvs) =
     ''{'' @ join_with '', ''
                (map (\<lambda>(k, v). CHR ''\"'' # json_escape k @ ''\": '' @ json_repr v) kvs) @ ''}''"

definition json_text :: "json \<Rightarrow> string" where
  "json_text j = (case j of JStr s \<Rightarrow> s | _ \<Rightarrow> json_repr j)"

section \<open>Lemmas\<close>

lemma those_map_json_str [simp]: "those (map (json_str \<circ> JStr) ss) = Some ss"
  by (induction ss) auto

lemma json_field_last [simp]:
  "json_field (kvs @ [(k, v)]) k = Some v"
  by (simp add: json_field_def)

lemma json_field_cons_other:
  "k' \<noteq> k \<Longrightarrow> json_field ((k, v) # kvs) k' = json_field kvs k'"
  by (simp add: json_field_def map_add_def split: option.split)

lemma map_of_drop_other:
  "k' \<noteq> k \<Longrightarrow> map_of (xs @ (k, v) # ys) k' = map_of (xs @ ys) k'"
  by (induction xs) auto

lemma json_field_drop_other:
  "k' \<noteq> k \<Longrightarrow> json_field (kvs1 @ (k, v) # kvs2) k' = json_field (kvs1 @ kvs2) k'"
  using map_of_drop_other [of k' k "rev kvs2" v "rev kvs1"]
  by (simp add: json_field_def del: map_of_append)

lemma json_str_Some: "json_str j = Some s \<longleftrightarrow> j = JStr s"
  by (cases j) auto

lemma those_json_str: "those (map json_str xs) = Some ss \<longleftrightarrow> xs = map JStr ss"
proof (induction xs arbitrary: ss)
  case Nil
  then show ?case by auto
next
  case (Cons x xs)
  then show ?case
    by (cases ss; cases x) (auto split: option.splits)
qed

lemma map_JStr_eq [simp]: "map JStr xs = map JStr ys \<longleftrightarrow> xs = ys"
  by (simp add: inj_map_eq_map inj_def)

lemma json_str_list_Some: "json_str_list j = Some ss \<longleftrightarrow> j = JArr (map JStr ss)"
  by (cases j) (auto simp: those_json_str)

section \<open>Properties of the schema\<close>

text \<open>
  Claim C25: a JSON value validates to a
  \<open>DocsResponse\<close> exactly when it is an object whose \<open>answer\<close> is that
  string and whose \<open>sources\<close> is that list of strings; nothing else about
  the object matters.
\<close>

theorem validate_docs_response_iff:
  "validate_docs_response j = Inr r \<longleftrightarrow>
   (\<exists>kvs. j = JObj kvs \<and> json_field kvs ''answer'' = Some (JStr (answer r)) \<and>
          json_field kvs ''sources'' = Some (JArr (map JStr (sources r))))"
  by (auto simp: validate_docs_response_def json_str_Some json_str_list_Some
           split: json.splits option.splits intro: docs_response.equality)

text \<open>
  Claim C26: a key other than \<open>answer\<close> and
  \<open>sources\<close> anywhere in the object changes nothing: neither the result nor
  the error.
\<close>

theorem validate_docs_response_extra_key:
  assumes "k \<noteq> ''answer''" and "k \<noteq> ''sources''"
  shows "validate_docs_response (JObj (kvs1 @ (k, v) # kvs2)) =
         validate_docs_response (JObj (kvs1 @ kvs2))"
proof -
  have "json_field (kvs1 @ (k, v) # kvs2) ''answer'' = json_field (kvs1 @ kvs2) ''answer''"
   and "json_field (kvs1 @ (k, v) # kvs2) ''sources'' = json_field (kvs1 @ kvs2) ''sources''"
    using assms by (simp_all add: json_field_drop_other)
  then show ?thesis by (simp only: validate_docs_response_def json.case)
qed

theorem validate_docs_response_extra_key_witness:
  "validate_docs_response
     (JObj ([(''answer'', JStr ''Blob storage'')] @ (''confidence'', JInt 1) #
            [(''sources'', JArr [JStr ''https://learn.microsoft.com/azure/storage/blobs/'']) ])) =
   Inr \<lparr>answer = ''Blob storage'', sources = [''https://learn.microsoft.com/azure/storage/blobs/'']\<rparr>"
proof -
  have "validate_docs_response
     (JObj ([(''answer'', JStr ''Blob storage'')] @ (''confidence'', JInt 1) #
            [(''sources'', JArr [JStr ''https://learn.microsoft.com/azure/storage/blobs/'']) ])) =
        validate_docs_response
     (JObj ([(''answer'', JStr ''Blob storage'')] @
            [(''sources'', JArr [JStr ''https://learn.microsoft.com/azure/storage/blobs/'']) ]))"
    by (rule validate_docs_response_extra_key) simp_all
  then show ?thesis by (simp add: validate_docs_response_def json_field_def)
qed

end
