(* ===== verification/Agents.thy ===== *)
theory Agents
  imports Responses
begin

text \<open>
  The three agents and the documentation tool binding.
  \<^item> Construction, from the source: \<open>create_rewrite_agent\<close>
    (src/agents/rewrite.py), \<open>create_docs_agent\<close>
    (src/src/docs-agent/agents/docs.py, which also builds the
    \<open>MCPStreamableHTTPTool\<close>) and \<open>create_summarize_agent\<close>
    (src/src/docs-agent/agents/summarize.py); a \<open>ChatAgent\<close> is the record
    \<open>chat_agent\<close>, the shared \<open>AzureOpenAIResponsesClient\<close> the record
    \<open>chat_client\<close>, the tool the record \<open>mcp_tool\<close>.
  \<^item> Execution, modelled from spec section 4.1 since \<open>ChatAgent.run\<close> is
    library code: the remote services are the record \<open>services\<close> (the
    inference endpoint, \<open>infer\<close>, and the MCP server, \<open>call_tool\<close>), kept
    as parameters because they are opaque. One run starts a fresh
    conversation from the input, asks the model, runs each tool call it
    requests through an allowed tool and feeds the result back, until the
    model gives a final reply; a tool operation no binding allows fails
    with \<open>ToolNotPermitted\<close>, a final reply that does not validate against
    the agent's response format with \<open>SchemaViolation\<close>, a service failure
    propagates. The loop has no bound in the spec, so it is a
    \<open>partial_function (option)\<close>: \<open>None\<close> is a model that requests tools
    forever.
\<close>

section \<open>Data\<close>

datatype credential = ApiKey string | DefaultAzureCredential

record chat_client =
  cc_endpoint :: string
  cc_deployment_name :: "string option"
  cc_credential :: credential

record mcp_tool =
  tool_name :: string
  tool_url :: string
  allowed_tools :: "string list option"

datatype response_format = DocsResponseFormat
  \<comment> \<open>\<open>response_format=DocsResponse\<close>\<close>

record chat_agent =
  agent_client :: chat_client
  agent_instructions :: string
  agent_name :: string
  agent_tools :: "mcp_tool list"
  agent_response_format :: "response_format option"

section \<open>Construction\<close>

definition create_rewrite_agent :: "chat_client \<Rightarrow> chat_agent" where
  "create_rewrite_agent chat_client =
     \<lparr>agent_client = chat_client,
      agent_instructions =
        ''You are an expert editor. Rewrite the user's input to be precise, '' @
        ''correcting grammar and spelling. Optimize it for a documentation '' @
        ''search query while preserving the original intent.'',
      agent_name = ''rewrite-agent'',
      agent_tools = [],
      agent_response_format = None\<rparr>"

definition create_docs_agent :: "chat_client \<Rightarrow> chat_agent \<times> mcp_tool" where
  "create_docs_agent chat_client =
     (let mcp_tool =
        \<lparr>tool_name = ''Microsoft Learn MCP'',
         tool_url = ''https://learn.microsoft.com/api/mcp'',
         allowed_tools = Some [''microsoft_docs_search'']\<rparr>;
      agent =
        \<lparr>agent_client = chat_client,
         agent_instructions =
           ''You are an expert assistant that answers questions about '' @
           ''Microsoft products and services. Use the Microsoft Learn MCP '' @
           ''server to ground your answers in official Microsoft '' @
           ''documentation whenever possible.'',
         agent_name = ''microsoft-docs-agent'',
         agent_tools = [mcp_tool],
         agent_response_format = Some DocsResponseFormat\<rparr>
      in (agent, mcp_tool))"

definition create_summarize_agent :: "chat_client \<Rightarrow> chat_agent" where
  "create_summarize_agent chat_client =
     \<lparr>agent_client = chat_client,
      agent_instructions =
        ''You are a helpful assistant that summarizes the provided text '' @
        ''into a concise bulleted list. Do not lose important information. '' @
        ''Always output your response in Markdown format.'',
      agent_name = ''summarize-agent'',
      agent_tools = [],
      agent_response_format = None\<rparr>"

section \<open>Execution\<close>

datatype message =
    UserMessage json
  | AssistantToolCall string json
  | ToolResultMessage string json

text \<open>What the model answers: a final reply, or a request to call a tool operation.\<close>

datatype reply = FinalReply json | ToolCallReply string json

record services =
  infer :: "chat_agent \<Rightarrow> message list \<Rightarrow> reply result"
  call_tool :: "mcp_tool \<Rightarrow> string \<Rightarrow> json \<Rightarrow> json result"

definition tool_permits :: "mcp_tool \<Rightarrow> string \<Rightarrow> bool" where
  "tool_permits t op = (case allowed_tools t of None \<Rightarrow> True | Some ops \<Rightarrow> op \<in> set ops)"

definition find_tool :: "chat_agent \<Rightarrow> string \<Rightarrow> mcp_tool option" where
  "find_tool a op = find (\<lambda>t. tool_permits t op) (agent_tools a)"

definition finish_reply :: "chat_agent \<Rightarrow> json \<Rightarrow> json result" where
  "finish_reply a j =
     (case agent_response_format a of
        None \<Rightarrow> Inr j
      | Some DocsResponseFormat \<Rightarrow> res_bind (validate_docs_response j) (\<lambda>_. Inr j))"

partial_function (option) agent_loop ::
  "services \<Rightarrow> chat_agent \<Rightarrow> message list \<Rightarrow> json result option" where
  "agent_loop svc a msgs =
     (case infer svc a msgs of
        Inl e \<Rightarrow> Some (Inl e)
      | Inr (FinalReply j) \<Rightarrow> Some (finish_reply a j)
      | Inr (ToolCallReply op args) \<Rightarrow>
          (case find_tool a op of
             None \<Rightarrow> Some (Inl (ToolNotPermitted op))
           | Some t \<Rightarrow>
               (case call_tool svc t op args of
                  Inl e \<Rightarrow> Some (Inl e)
                | Inr res \<Rightarrow>
                    agent_loop svc a (msgs @ [AssistantToolCall op args, ToolResultMessage op res]))))"

definition agent_run :: "services \<Rightarrow> chat_agent \<Rightarrow> json \<Rightarrow> json result option" where
  "agent_run svc a input = agent_loop svc a [UserMessage input]"

section \<open>Lemmas\<close>

lemma find_tool_permits: "find_tool a op = Some t \<Longrightarrow> tool_permits t op"
  by (auto simp: find_tool_def dest: find_Some_iff [THEN iffD1])

lemma agent_loop_validated:
  assumes run: "agent_loop svc a msgs = Some (Inr out)"
    and fmt: "agent_response_format a = Some DocsResponseFormat"
  shows "\<exists>r. validate_docs_response out = Inr r"
proof -
  have "agent_response_format a = Some DocsResponseFormat \<longrightarrow>
        (\<forall>o'. (Inr out :: json result) = Inr o' \<longrightarrow> (\<exists>r. validate_docs_response o' = Inr r))"
    by (rule agent_loop.raw_induct
        [where P = "\<lambda>svc a msgs res. agent_response_format a = Some DocsResponseFormat \<longrightarrow>
                      (\<forall>o'. res = Inr o' \<longrightarrow> (\<exists>r. validate_docs_response o' = Inr r))",
         OF _ run])
       (fastforce simp: finish_reply_def res_bind_eq_Inr
                  split: sum.splits reply.splits option.splits)
  with fmt show ?thesis by simp
qed

text \<open>Services that agree on the model and on every call an allow-list admits.\<close>

lemma agent_loop_agree_Some:
  assumes run: "agent_loop svc a msgs = Some r"
    and inf: "infer svc' = infer svc"
    and calls: "\<forall>op t. find_tool a op = Some t \<longrightarrow> call_tool svc' t op = call_tool svc t op"
  shows "agent_loop svc' a msgs = Some r"
proof -
  have "svc = svc \<longrightarrow> a = a \<longrightarrow> agent_loop svc' a msgs = Some r"
    by (rule agent_loop.raw_induct
        [where P = "\<lambda>s b ms res. s = svc \<longrightarrow> b = a \<longrightarrow> agent_loop svc' a ms = Some res",
         OF _ run])
       (subst agent_loop.simps; auto simp: inf calls split: sum.splits reply.splits option.splits)
  then show ?thesis by simp
qed


lemma agent_loop_agree:
  assumes inf: "infer svc' = infer svc"
    and calls: "\<forall>op t. find_tool a op = Some t \<longrightarrow> call_tool svc' t op = call_tool svc t op"
  shows "agent_loop svc' a msgs = agent_loop svc a msgs"
proof (cases "agent_loop svc a msgs")
  case None
  have inf': "infer svc = infer svc'" using inf by (rule sym)
  have calls': "\<forall>op t. find_tool a op = Some t \<longrightarrow> call_tool svc t op = call_tool svc' t op"
  proof (intro allI impI)
    fix op t assume "find_tool a op = Some t"
    with calls show "call_tool svc t op = call_tool svc' t op" by (rule_tac sym) blast
  qed
  show ?thesis
  proof (cases "agent_loop svc' a msgs")
    case None
    with \<open>agent_loop svc a msgs = None\<close> show ?thesis by simp
  next
    case (Some r)
    from agent_loop_agree_Some [OF Some inf' calls'] None show ?thesis by simp
  qed
next
  case (Some r)
  from agent_loop_agree_Some [OF Some inf calls] Some show ?thesis by simp
qed

lemma docs_agent_fields:
  "agent_tools (fst (create_docs_agent cc)) = [snd (create_docs_agent cc)]"
  "allowed_tools (snd (create_docs_agent cc)) = Some [''microsoft_docs_search'']"
  "agent_response_format (fst (create_docs_agent cc)) = Some DocsResponseFormat"
  by (simp_all add: create_docs_agent_def Let_def)

lemma docs_find_tool:
  "find_tool (fst (create_docs_agent cc)) op =
   (if op = ''microsoft_docs_search'' then Some (snd (create_docs_agent cc)) else None)"
  by (simp add: find_tool_def tool_permits_def docs_agent_fields)


lemma agent_loop_first_round:
  "agent_loop svc a msgs =
     (case infer svc a msgs of
        Inl e \<Rightarrow> Some (Inl e)
      | Inr (FinalReply j) \<Rightarrow> Some (finish_reply a j)
      | Inr (ToolCallReply op args) \<Rightarrow>
          (case find_tool a op of
             None \<Rightarrow> Some (Inl (ToolNotPermitted op))
           | Some t \<Rightarrow>
               (case call_tool svc t op args of
                  Inl e \<Rightarrow> Some (Inl e)
                | Inr res \<Rightarrow>
                    agent_loop svc a (msgs @ [AssistantToolCall op args, ToolResultMessage op res]))))"
  by (rule agent_loop.simps)

lemma agent_run_final:
  "infer svc a [UserMessage v] = Inr (FinalReply j) \<Longrightarrow> agent_run svc a v = Some (finish_reply a j)"
  unfolding agent_run_def by (subst agent_loop_first_round) simp

lemma agent_run_infer_error:
  "infer svc a [UserMessage v] = Inl e \<Longrightarrow> agent_run svc a v = Some (Inl e)"
  unfolding agent_run_def by (subst agent_loop_first_round) simp

lemma plain_agent_run_total:
  "a \<in> {create_rewrite_agent cc, create_summarize_agent cc} \<Longrightarrow> agent_run svc a v \<noteq> None"
  unfolding agent_run_def
  by (subst agent_loop_first_round)
     (auto simp: create_rewrite_agent_def create_summarize_agent_def find_tool_def
           split: sum.split reply.split)

section \<open>Properties of the agents\<close>

text \<open>
  Claim C13: the documentation agent reaches
  the MCP server only through its one binding and only for the
  \<open>microsoft_docs_search\<close> operation: replacing every other behaviour of the
  server by a refusal changes none of its runs.
\<close>

theorem docs_agent_only_docs_search:
  "agent_run (svc\<lparr>call_tool := \<lambda>t op args.
                   if t = snd (create_docs_agent cc) \<and> op = ''microsoft_docs_search''
                   then call_tool svc t op args else Inl (ToolNotPermitted op)\<rparr>)
             (fst (create_docs_agent cc)) v =
   agent_run svc (fst (create_docs_agent cc)) v"
  unfolding agent_run_def
  by (rule agent_loop_agree) (auto simp: docs_find_tool fun_eq_iff split: if_splits)

text \<open>
  Claim C14: whatever the services do, a
  successful run of the documentation agent returns a reply that validates
  as a \<open>DocsResponse\<close>.
\<close>

theorem docs_agent_output_validates:
  "agent_run svc (fst (create_docs_agent cc)) v = Some (Inr out) \<Longrightarrow>
   \<exists>r. validate_docs_response out = Inr r"
  unfolding agent_run_def
  by (erule agent_loop_validated) (simp add: docs_agent_fields)

theorem docs_agent_output_validates_witness:
  "agent_run \<lparr>infer = \<lambda>a ms. Inr (FinalReply (dump_docs_response
                 \<lparr>answer = ''Azure Blob Storage stores objects.'',
                  sources = [''https://learn.microsoft.com/azure/storage/blobs/'']\<rparr>)),
              call_tool = \<lambda>t op args. Inl (UpstreamServiceError ''unreachable'')\<rparr>
     (fst (create_docs_agent \<lparr>cc_endpoint = ''https://example.openai.azure.com'',
          cc_deployment_name = None, cc_credential = DefaultAzureCredential\<rparr>)) (JStr ''q'') =
   Some (Inr (dump_docs_response
                 \<lparr>answer = ''Azure Blob Storage stores objects.'',
                  sources = [''https://learn.microsoft.com/azure/storage/blobs/'']\<rparr>)) \<and>
   (\<exists>r. validate_docs_response (dump_docs_response
                 \<lparr>answer = ''Azure Blob Storage stores objects.'',
                  sources = [''https://learn.microsoft.com/azure/storage/blobs/'']\<rparr>) = Inr r)"
  (is "?run = Some (Inr ?out) \<and> _")
proof -
  have run: "?run = Some (Inr ?out)"
    unfolding agent_run_def
    by (subst agent_loop.simps)
       (simp add: finish_reply_def docs_agent_fields validate_docs_response_def
                 dump_docs_response_def json_field_def)
  then have "\<exists>r. validate_docs_response ?out = Inr r"
    by (rule docs_agent_output_validates)
  with run show ?thesis by blast
qed

text \<open>
  Claim C22: a final reply of the model that is
  not a valid \<open>DocsResponse\<close> fails the documentation agent's run with the
  validation's \<open>SchemaViolation\<close>.
\<close>

theorem docs_agent_invalid_reply:
  assumes "infer svc (fst (create_docs_agent cc)) [UserMessage v] = Inr (FinalReply j)"
    and "validate_docs_response j = Inl e"
  shows "agent_run svc (fst (create_docs_agent cc)) v = Some (Inl e)"
  using assms unfolding agent_run_def
  by (subst agent_loop_first_round) (simp add: finish_reply_def docs_agent_fields)

theorem docs_agent_invalid_reply_witness:
  "agent_run \<lparr>infer = \<lambda>a ms. Inr (FinalReply (JStr ''Blob storage is object storage.'')),
              call_tool = \<lambda>t op args. Inl (UpstreamServiceError ''unreachable'')\<rparr>
     (fst (create_docs_agent \<lparr>cc_endpoint = ''https://example.openai.azure.com'',
          cc_deployment_name = None, cc_credential = DefaultAzureCredential\<rparr>)) (JStr ''q'') =
   Some (Inl (SchemaViolation ''Input should be a valid dictionary''))"
  by (rule docs_agent_invalid_reply [where j = "JStr ''Blob storage is object storage.''"])
     (simp_all add: validate_docs_response_def)

text \<open>
  Claim C23: when the model asks the
  documentation agent for any tool operation other than
  \<open>microsoft_docs_search\<close>, the run fails with \<open>ToolNotPermitted\<close> and the
  MCP server is not called.
\<close>

theorem docs_agent_refuses_other_tools:
  assumes "infer svc (fst (create_docs_agent cc)) [UserMessage v] = Inr (ToolCallReply op args)"
    and "op \<noteq> ''microsoft_docs_search''"
  shows "agent_run svc (fst (create_docs_agent cc)) v = Some (Inl (ToolNotPermitted op))"
  using assms unfolding agent_run_def
  by (subst agent_loop_first_round) (simp add: docs_find_tool)

theorem docs_agent_refuses_other_tools_witness:
  "agent_run \<lparr>infer = \<lambda>a ms. Inr (ToolCallReply ''microsoft_code_sample_search'' JNull),
              call_tool = \<lambda>t op args. Inr JNull\<rparr>
     (fst (create_docs_agent \<lparr>cc_endpoint = ''https://example.openai.azure.com'',
          cc_deployment_name = None, cc_credential = DefaultAzureCredential\<rparr>)) (JStr ''q'') =
   Some (Inl (ToolNotPermitted ''microsoft_code_sample_search''))"
  by (rule docs_agent_refuses_other_tools) simp_all

text \<open>
  Claim C24: the rewrite and summarize agents have
  no tools and no response format: a run is one call of the model, any
  final reply is accepted as it is (the summarize agent accepts the
  documentation agent's structured output as text), and every tool call
  is refused.
\<close>

theorem plain_agents_single_round:
  "a \<in> {create_rewrite_agent cc, create_summarize_agent cc} \<Longrightarrow>
   agent_run svc a v =
     (case infer svc a [UserMessage v] of
        Inl e \<Rightarrow> Some (Inl e)
      | Inr (FinalReply j) \<Rightarrow> Some (Inr j)
      | Inr (ToolCallReply op args) \<Rightarrow> Some (Inl (ToolNotPermitted op)))"
  unfolding agent_run_def
  by (subst agent_loop_first_round)
     (auto simp: create_rewrite_agent_def create_summarize_agent_def find_tool_def
                 finish_reply_def split: sum.split reply.split)

theorem plain_agents_single_round_witness:
  "agent_run \<lparr>infer = \<lambda>a ms. Inr (FinalReply (JStr ''- Blob storage: object store'')),
              call_tool = \<lambda>t op args. Inr JNull\<rparr>
     (create_summarize_agent \<lparr>cc_endpoint = ''https://example.openai.azure.com'',
          cc_deployment_name = None, cc_credential = DefaultAzureCredential\<rparr>)
     (dump_docs_response \<lparr>answer = ''Blob storage'', sources = []\<rparr>) =
   Some (Inr (JStr ''- Blob storage: object store''))"
proof -
  let ?cc = "\<lparr>cc_endpoint = ''https://example.openai.azure.com'',
             cc_deployment_name = None, cc_credential = DefaultAzureCredential\<rparr>"
  have "create_summarize_agent ?cc \<in> {create_rewrite_agent ?cc, create_summarize_agent ?cc}"
    by simp
  from plain_agents_single_round [OF this] show ?thesis by simp
qed

end
