(* ===== verification/Documentation.thy ===== *)
theory Documentation
  imports Workflow Agents
begin

text \<open>
  The documentation workflow of src/src/agents-in-workflow/workflows/documentation.py:
  \<open>create_documentation_workflow\<close> issues, on a fresh \<open>WorkflowBuilder\<close>,
  \<open>add_agent(summarize_agent, output_response=True)\<close>, the edges
  rewrite \<open>\<rightarrow>\<close> docs and docs \<open>\<rightarrow>\<close> summarize, \<open>set_start_executor(rewrite_agent)\<close>
  and \<open>build()\<close>; an agent becomes the executor named by its name
  (\<open>executor_of\<close>). The workflow's messages are JSON values and an executor
  answers with \<open>agent_run\<close> of theory Agents: \<open>doc_respond\<close> plugs the agents
  into the generic engine of theory Workflow. The lemmas show that this
  sequence of builder calls is the straight-line builder of spec 4.2 on
  [rewrite, docs, summarize], and so inherits its contract, and which
  \<open>ValueError\<close> the calls raise when two different agents share a name.
\<close>

definition executor_of :: "chat_agent \<Rightarrow> chat_agent executor" where
  "executor_of a = (agent_name a, a)"

definition create_documentation_workflow ::
  "chat_agent \<Rightarrow> chat_agent \<Rightarrow> chat_agent \<Rightarrow> chat_agent workflow result" where
  "create_documentation_workflow rewrite_agent docs_agent summarize_agent =
     (let workflow = empty_builder in
      res_bind (add_agent workflow (executor_of summarize_agent) True) (\<lambda>workflow.
      res_bind (add_edge workflow (executor_of rewrite_agent) (executor_of docs_agent)) (\<lambda>workflow.
      res_bind (add_edge workflow (executor_of docs_agent) (executor_of summarize_agent)) (\<lambda>workflow.
      res_bind (set_start_executor workflow (executor_of rewrite_agent)) build))))"

definition doc_respond :: "services \<Rightarrow> chat_agent \<Rightarrow> json \<Rightarrow> json result option" where
  "doc_respond svc a msg = agent_run svc a msg"

text \<open>The repository's three agents over one chat client.\<close>

definition repo_agents :: "chat_client \<Rightarrow> chat_agent list" where
  "repo_agents cc = [create_rewrite_agent cc, fst (create_docs_agent cc), create_summarize_agent cc]"

section \<open>Lemmas\<close>

lemma repo_agent_names:
  "agent_name (create_rewrite_agent cc) = ''rewrite-agent''"
  "agent_name (fst (create_docs_agent cc)) = ''microsoft-docs-agent''"
  "agent_name (create_summarize_agent cc) = ''summarize-agent''"
  by (simp_all add: create_rewrite_agent_def create_docs_agent_def create_summarize_agent_def Let_def)

lemma repo_executors_distinct:
  "distinct (map fst (map executor_of (repo_agents cc)))"
  by (simp add: repo_agents_def executor_of_def repo_agent_names)

lemma create_documentation_workflow_chain:
  "create_documentation_workflow r d s = build_chain (map executor_of [r, d, s])"
  by (simp add: create_documentation_workflow_def build_chain_def)

lemma walk_chain_step:
  assumes "chain_at w (x # y # zs)" and "respond (snd x) v = Some (Inr mid)"
  shows "walk respond w (fst x) v =
         Option.bind (walk respond w (fst y) mid)
           (\<lambda>(evs, err). Some ([ExecutorInvokedEvent (fst x), ExecutorCompletedEvent (fst x)] @ evs, err))"
  using assms by (subst walk.simps) simp

lemma walk_chain_fail:
  assumes "chain_at w (x # zs)" and "respond (snd x) v = Some (Inl e)"
  shows "walk respond w (fst x) v = Some ([ExecutorInvokedEvent (fst x)], Some e)"
  using assms by (cases zs) (subst walk.simps, simp)+

lemma repo_workflow:
  "create_documentation_workflow (create_rewrite_agent cc) (fst (create_docs_agent cc))
     (create_summarize_agent cc) = Inr (chain_shape (map executor_of (repo_agents cc)))"
  using build_chain_shape [of "map executor_of (repo_agents cc)"] repo_executors_distinct [of cc]
  by (simp add: create_documentation_workflow_chain repo_agents_def)

lemma executor_of_simps [simp]:
  "fst (executor_of a) = agent_name a"
  "snd (executor_of a) = a"
  "snd \<circ> executor_of = id"
  "fst \<circ> executor_of = agent_name"
  by (simp_all add: executor_of_def fun_eq_iff)

lemma repo_executor_ids:
  "map agent_name (repo_agents cc) =
   [''rewrite-agent'', ''microsoft-docs-agent'', ''summarize-agent'']"
  by (simp add: repo_agents_def executor_of_def repo_agent_names)

lemma repo_start_id: "fst (hd (map executor_of (repo_agents cc))) = ''rewrite-agent''"
  by (simp add: repo_agents_def executor_of_def repo_agent_names)

lemma repo_workflow_chain_at:
  "chain_at (chain_shape (map executor_of (repo_agents cc))) (map executor_of (repo_agents cc))"
  by (rule chain_shape_chain_at [OF _ repo_executors_distinct]) (simp add: repo_agents_def)

lemma repo_run_success:
  assumes "doc_respond svc (create_rewrite_agent cc) v = Some (Inr q)"
    and "doc_respond svc (fst (create_docs_agent cc)) q = Some (Inr answer_json)"
    and "doc_respond svc (create_summarize_agent cc) answer_json = Some (Inr summary)"
  shows "\<exists>evs. run_stream (doc_respond svc) (chain_shape (map executor_of (repo_agents cc))) v =
                 Some (evs, None) \<and>
               invoked evs = [''rewrite-agent'', ''microsoft-docs-agent'', ''summarize-agent''] \<and>
               output_data evs = [summary]"
proof -
  have "pipeline (doc_respond svc) (map snd (map executor_of (repo_agents cc))) v = Some (Inr summary)"
    using assms by (simp add: repo_agents_def)
  from walk_chain_invoked [OF repo_workflow_chain_at this]
  show ?thesis
    by (simp add: run_stream_def repo_executor_ids)
qed

lemma repo_run_docs_failure:
  assumes "doc_respond svc (create_rewrite_agent cc) v = Some (Inr q)"
    and "doc_respond svc (fst (create_docs_agent cc)) q = Some (Inl e)"
  shows "run_stream (doc_respond svc) (chain_shape (map executor_of (repo_agents cc))) v =
           Some ([ExecutorInvokedEvent ''rewrite-agent'', ExecutorCompletedEvent ''rewrite-agent'',
                  ExecutorInvokedEvent ''microsoft-docs-agent''], Some e)"
proof -
  let ?w = "chain_shape (map executor_of (repo_agents cc))"
  have c: "chain_at ?w [executor_of (create_rewrite_agent cc), executor_of (fst (create_docs_agent cc)),
                        executor_of (create_summarize_agent cc)]"
    using repo_workflow_chain_at [of cc] by (simp add: repo_agents_def)
  have step: "walk (doc_respond svc) ?w (fst (executor_of (create_rewrite_agent cc))) v =
      Option.bind (walk (doc_respond svc) ?w (fst (executor_of (fst (create_docs_agent cc)))) q)
        (\<lambda>(evs, err). Some ([ExecutorInvokedEvent (fst (executor_of (create_rewrite_agent cc))),
                              ExecutorCompletedEvent (fst (executor_of (create_rewrite_agent cc)))] @ evs,
                             err))"
    by (rule walk_chain_step [OF c]) (simp add: assms(1))
  have "chain_at ?w [executor_of (fst (create_docs_agent cc)), executor_of (create_summarize_agent cc)]"
    using c by simp
  then have fail: "walk (doc_respond svc) ?w (fst (executor_of (fst (create_docs_agent cc)))) q =
      Some ([ExecutorInvokedEvent (fst (executor_of (fst (create_docs_agent cc))))], Some e)"
    by (rule walk_chain_fail) (simp add: assms(2))
  show ?thesis
    using step fail
    by (simp add: run_stream_def repo_start_id repo_agent_names)
qed




section \<open>Properties of the documentation workflow\<close>

text \<open>
  Claim C1: a run of the repository's workflow
  implements the pipeline rewrite, then docs, then summarize: the host
  observes the summarize agent's output when all three succeed, the first
  failure otherwise, and the run diverges exactly when an agent does.
\<close>

theorem documentation_run_refines:
  "\<exists>w. create_documentation_workflow (create_rewrite_agent cc) (fst (create_docs_agent cc))
         (create_summarize_agent cc) = Inr w \<and>
       map_option observe (run_stream (doc_respond svc) w v) =
       map_option observe_spec (pipeline (doc_respond svc) (repo_agents cc) v)"
  using walk_chain [OF repo_workflow_chain_at [of cc], of "doc_respond svc" v]
  by (simp add: repo_workflow run_stream_def)

text \<open>
  Claim C4: when the three agents succeed in turn,
  the stream ends normally, invokes rewrite-agent, microsoft-docs-agent and
  summarize-agent in this order, and carries exactly one output event: the
  summarize agent's output. The intermediate outputs are passed on silently.
\<close>

theorem documentation_run_events:
  assumes "doc_respond svc (create_rewrite_agent cc) v = Some (Inr q)"
    and "doc_respond svc (fst (create_docs_agent cc)) q = Some (Inr answer_json)"
    and "doc_respond svc (create_summarize_agent cc) answer_json = Some (Inr summary)"
  shows "\<exists>w evs. create_documentation_workflow (create_rewrite_agent cc) (fst (create_docs_agent cc))
                   (create_summarize_agent cc) = Inr w \<and>
               run_stream (doc_respond svc) w v = Some (evs, None) \<and>
               invoked evs = [''rewrite-agent'', ''microsoft-docs-agent'', ''summarize-agent''] \<and>
               output_data evs = [summary]"
  using repo_run_success [OF assms] by (simp add: repo_workflow)

theorem documentation_run_events_witness:
  "\<exists>w evs. create_documentation_workflow
       (create_rewrite_agent \<lparr>cc_endpoint = ''https://example.openai.azure.com'',
          cc_deployment_name = Some ''gpt-4.1'', cc_credential = ApiKey ''k''\<rparr>)
       (fst (create_docs_agent \<lparr>cc_endpoint = ''https://example.openai.azure.com'',
          cc_deployment_name = Some ''gpt-4.1'', cc_credential = ApiKey ''k''\<rparr>))
       (create_summarize_agent \<lparr>cc_endpoint = ''https://example.openai.azure.com'',
          cc_deployment_name = Some ''gpt-4.1'', cc_credential = ApiKey ''k''\<rparr>) = Inr w \<and>
     run_stream (doc_respond
        \<lparr>infer = \<lambda>a ms. Inr (FinalReply
            (if agent_name a = ''microsoft-docs-agent''
             then dump_docs_response \<lparr>answer = ''Object storage for unstructured data.'',
                    sources = [''https://learn.microsoft.com/azure/storage/blobs/'']\<rparr>
             else JStr (''reply of '' @ agent_name a))),
         call_tool = \<lambda>t op args. Inr JNull\<rparr>) w (JStr ''wut is Azure Blob torage'') = Some (evs, None) \<and>
     invoked evs = [''rewrite-agent'', ''microsoft-docs-agent'', ''summarize-agent''] \<and>
     output_data evs = [JStr ''reply of summarize-agent'']"
  by (rule documentation_run_events
        [where q = "JStr ''reply of rewrite-agent''"
           and answer_json = "dump_docs_response \<lparr>answer = ''Object storage for unstructured data.'',
                    sources = [''https://learn.microsoft.com/azure/storage/blobs/'']\<rparr>"])
     (simp_all add: doc_respond_def agent_run_final repo_agent_names finish_reply_def
                    docs_agent_fields validate_docs_response_def dump_docs_response_def
                    json_field_def create_rewrite_agent_def
                    create_summarize_agent_def)

text \<open>
  Claim C5: when the documentation agent fails
  (an unreachable MCP server, a schema violation), the stream ends with
  that exception after the rewrite agent completed and the docs agent was
  invoked; the summarize agent is never invoked and no output is emitted
  (spec scenario D).
\<close>

theorem documentation_docs_failure:
  assumes "doc_respond svc (create_rewrite_agent cc) v = Some (Inr q)"
    and "doc_respond svc (fst (create_docs_agent cc)) q = Some (Inl e)"
  shows "\<exists>w. create_documentation_workflow (create_rewrite_agent cc) (fst (create_docs_agent cc))
               (create_summarize_agent cc) = Inr w \<and>
             run_stream (doc_respond svc) w v =
               Some ([ExecutorInvokedEvent ''rewrite-agent'', ExecutorCompletedEvent ''rewrite-agent'',
                      ExecutorInvokedEvent ''microsoft-docs-agent''], Some e)"
  using repo_run_docs_failure [OF assms] by (simp add: repo_workflow)

theorem documentation_docs_failure_witness:
  "\<exists>w. create_documentation_workflow
       (create_rewrite_agent \<lparr>cc_endpoint = ''https://example.openai.azure.com'',
          cc_deployment_name = Some ''gpt-4.1'', cc_credential = ApiKey ''k''\<rparr>)
       (fst (create_docs_agent \<lparr>cc_endpoint = ''https://example.openai.azure.com'',
          cc_deployment_name = Some ''gpt-4.1'', cc_credential = ApiKey ''k''\<rparr>))
       (create_summarize_agent \<lparr>cc_endpoint = ''https://example.openai.azure.com'',
          cc_deployment_name = Some ''gpt-4.1'', cc_credential = ApiKey ''k''\<rparr>) = Inr w \<and>
     run_stream (doc_respond
        \<lparr>infer = \<lambda>a ms.
            (if agent_name a = ''microsoft-docs-agent''
             then Inl (UpstreamServiceError ''MCP server unreachable'')
             else Inr (FinalReply (JStr (''reply of '' @ agent_name a)))),
         call_tool = \<lambda>t op args. Inr JNull\<rparr>) w (JStr ''wut is Azure Blob torage'') =
       Some ([ExecutorInvokedEvent ''rewrite-agent'', ExecutorCompletedEvent ''rewrite-agent'',
              ExecutorInvokedEvent ''microsoft-docs-agent''],
             Some (UpstreamServiceError ''MCP server unreachable''))"
  by (rule documentation_docs_failure [where q = "JStr ''reply of rewrite-agent''"])
     (simp_all add: doc_respond_def agent_run_final agent_run_infer_error repo_agent_names
                    finish_reply_def create_rewrite_agent_def)

text \<open>
  Claim C9: the rewrite and summarize agents
  always answer, so a run of the repository's workflow ends whenever the
  documentation agent's tool loop ends.
\<close>

theorem documentation_run_terminates:
  assumes "\<forall>u. doc_respond svc (fst (create_docs_agent cc)) u \<noteq> None"
  shows "\<exists>w s. create_documentation_workflow (create_rewrite_agent cc) (fst (create_docs_agent cc))
                 (create_summarize_agent cc) = Inr w \<and>
               run_stream (doc_respond svc) w v = Some s"
proof -
  have all: "\<forall>a\<in>set (map snd (map executor_of (repo_agents cc))). \<forall>u. doc_respond svc a u \<noteq> None"
    using assms plain_agent_run_total [of _ cc svc]
    by (auto simp: repo_agents_def doc_respond_def)
  from pipeline_total [OF all] obtain r
    where p: "pipeline (doc_respond svc) (map snd (map executor_of (repo_agents cc))) v = Some r"
    by blast
  from walk_chain [OF repo_workflow_chain_at [of cc], of "doc_respond svc" v] p
  have "map_option observe (walk (doc_respond svc) (chain_shape (map executor_of (repo_agents cc)))
          (fst (hd (map executor_of (repo_agents cc)))) v) = Some (observe_spec r)"
    by simp
  then obtain s where "walk (doc_respond svc) (chain_shape (map executor_of (repo_agents cc)))
          (fst (hd (map executor_of (repo_agents cc)))) v = Some s"
    by (cases "walk (doc_respond svc) (chain_shape (map executor_of (repo_agents cc)))
          (fst (hd (map executor_of (repo_agents cc)))) v") simp_all
  then show ?thesis
    by (simp add: repo_workflow run_stream_def)
qed

theorem documentation_run_terminates_witness:
  "\<exists>w s. create_documentation_workflow
       (create_rewrite_agent \<lparr>cc_endpoint = ''https://example.openai.azure.com'',
          cc_deployment_name = None, cc_credential = DefaultAzureCredential\<rparr>)
       (fst (create_docs_agent \<lparr>cc_endpoint = ''https://example.openai.azure.com'',
          cc_deployment_name = None, cc_credential = DefaultAzureCredential\<rparr>))
       (create_summarize_agent \<lparr>cc_endpoint = ''https://example.openai.azure.com'',
          cc_deployment_name = None, cc_credential = DefaultAzureCredential\<rparr>) = Inr w \<and>
     run_stream (doc_respond
        \<lparr>infer = \<lambda>a ms. Inr (FinalReply JNull), call_tool = \<lambda>t op args. Inr JNull\<rparr>)
       w (JStr ''What is Azure Blob Storage?'') = Some s"
  by (rule documentation_run_terminates) (simp add: doc_respond_def agent_run_final)

text \<open>
  Claim C10: whatever the agents and the services answer, a run of the
  repository's workflow is bounded by its three nodes (spec 4.3): it
  invokes rewrite-agent, then possibly microsoft-docs-agent, then possibly
  summarize-agent, each at most once and in this order, and yields at most
  seven events of which at most one is an output.
\<close>

theorem documentation_run_bounded:
  assumes "create_documentation_workflow (create_rewrite_agent cc) (fst (create_docs_agent cc))
             (create_summarize_agent cc) = Inr w"
    and "run_stream (doc_respond svc) w v = Some (evs, err)"
  shows "length evs \<le> 7 \<and> length (output_data evs) \<le> 1 \<and>
         (\<exists>k. 0 < k \<and> k \<le> 3 \<and>
              invoked evs = take k [''rewrite-agent'', ''microsoft-docs-agent'', ''summarize-agent''])"
proof -
  have w: "w = chain_shape (map executor_of (repo_agents cc))"
    using assms(1) repo_workflow [of cc] by simp
  have "walk (doc_respond svc) w (fst (hd (map executor_of (repo_agents cc)))) v = Some (evs, err)"
    using assms(2) by (simp add: run_stream_def w)
  from walk_chain_bounds [OF repo_workflow_chain_at [of cc, folded w] this]
  show ?thesis by (simp add: repo_agents_def repo_agent_names numeral_3_eq_3)
qed

theorem documentation_run_bounded_witness:
  "\<exists>w evs. create_documentation_workflow (create_rewrite_agent \<lparr>cc_endpoint = ''https://example.openai.azure.com'', cc_deployment_name = None, cc_credential = DefaultAzureCredential\<rparr>)
       (fst (create_docs_agent \<lparr>cc_endpoint = ''https://example.openai.azure.com'', cc_deployment_name = None, cc_credential = DefaultAzureCredential\<rparr>)) (create_summarize_agent \<lparr>cc_endpoint = ''https://example.openai.azure.com'', cc_deployment_name = None, cc_credential = DefaultAzureCredential\<rparr>) = Inr w \<and>
     run_stream (doc_respond \<lparr>infer = \<lambda>a ms. Inr (FinalReply JNull), call_tool = \<lambda>t op args. Inr JNull\<rparr>)
       w (JStr ''What is Azure Blob Storage?'') = Some (evs, Some (SchemaViolation ''Input should be a valid dictionary'')) \<and>
     length evs \<le> 7 \<and> length (output_data evs) \<le> 1 \<and>
     (\<exists>k. 0 < k \<and> k \<le> 3 \<and>
          invoked evs = take k [''rewrite-agent'', ''microsoft-docs-agent'', ''summarize-agent''])"
proof -
  let ?cc = "\<lparr>cc_endpoint = ''https://example.openai.azure.com'', cc_deployment_name = None, cc_credential = DefaultAzureCredential\<rparr>"
  let ?svc = "\<lparr>infer = \<lambda>a ms. Inr (FinalReply JNull), call_tool = \<lambda>t op args. Inr JNull\<rparr>"
  let ?w = "chain_shape (map executor_of (repo_agents ?cc))"
  have c: "create_documentation_workflow (create_rewrite_agent ?cc) (fst (create_docs_agent ?cc))
             (create_summarize_agent ?cc) = Inr ?w" by (rule repo_workflow)
  have r: "run_stream (doc_respond ?svc) ?w (JStr ''What is Azure Blob Storage?'') =
      Some ([ExecutorInvokedEvent ''rewrite-agent'', ExecutorCompletedEvent ''rewrite-agent'',
             ExecutorInvokedEvent ''microsoft-docs-agent''],
            Some (SchemaViolation ''Input should be a valid dictionary''))"
    by (rule repo_run_docs_failure [where q = JNull])
       (simp_all add: doc_respond_def agent_run_final finish_reply_def docs_agent_fields
                      validate_docs_response_def create_rewrite_agent_def)
  from documentation_run_bounded [OF c r] c r show ?thesis by blast
qed

text \<open>
  Claim C11: for any three agents with pairwise different names, the
  builder calls of \<open>create_documentation_workflow\<close> give a pipeline that
  satisfies the invariant of spec section 3: a simple path from the
  rewrite agent through the docs agent to the summarize agent, covering
  every executor once, with the summarize agent the only output node.
\<close>

theorem create_documentation_workflow_linear:
  assumes "agent_name rewrite_agent \<noteq> agent_name docs_agent"
    and "agent_name docs_agent \<noteq> agent_name summarize_agent"
    and "agent_name rewrite_agent \<noteq> agent_name summarize_agent"
  shows "\<exists>w. create_documentation_workflow rewrite_agent docs_agent summarize_agent = Inr w \<and>
             linear_pipeline w \<and> wf_start w = agent_name rewrite_agent \<and>
             map snd (wf_edges w) = [agent_name docs_agent, agent_name summarize_agent] \<and>
             wf_outputs w = [agent_name summarize_agent]"
proof -
  let ?xs = "map executor_of [rewrite_agent, docs_agent, summarize_agent]"
  have d: "distinct (map fst ?xs)" using assms by simp
  show ?thesis
    using build_chain_shape [OF _ d] chain_shape_linear [OF _ d]
    by (simp add: create_documentation_workflow_chain chain_shape_def)
qed

theorem create_documentation_workflow_linear_witness:
  "\<exists>w. create_documentation_workflow (create_rewrite_agent \<lparr>cc_endpoint = ''https://example.openai.azure.com'', cc_deployment_name = None, cc_credential = DefaultAzureCredential\<rparr>)
         (fst (create_docs_agent \<lparr>cc_endpoint = ''https://example.openai.azure.com'', cc_deployment_name = None, cc_credential = DefaultAzureCredential\<rparr>)) (create_summarize_agent \<lparr>cc_endpoint = ''https://example.openai.azure.com'', cc_deployment_name = None, cc_credential = DefaultAzureCredential\<rparr>) = Inr w \<and>
       linear_pipeline w \<and> wf_start w = ''rewrite-agent'' \<and>
       map snd (wf_edges w) = [''microsoft-docs-agent'', ''summarize-agent''] \<and>
       wf_outputs w = [''summarize-agent'']"
  using create_documentation_workflow_linear
    [of "create_rewrite_agent \<lparr>cc_endpoint = ''https://example.openai.azure.com'', cc_deployment_name = None, cc_credential = DefaultAzureCredential\<rparr>" "fst (create_docs_agent \<lparr>cc_endpoint = ''https://example.openai.azure.com'', cc_deployment_name = None, cc_credential = DefaultAzureCredential\<rparr>)"
        "create_summarize_agent \<lparr>cc_endpoint = ''https://example.openai.azure.com'', cc_deployment_name = None, cc_credential = DefaultAzureCredential\<rparr>"]
  by (simp add: repo_agent_names)



end
