(* ===== verification/Py_Builtins.thy ===== *)
theory Py_Builtins
  imports Prelude
begin

text \<open>
  The Python built-ins the entry points use on strings: \<open>str.strip()\<close>,
  \<open>str.lower()\<close>, the truth value of an optional string (\<open>not endpoint\<close>
  on the result of \<open>os.getenv\<close>) and \<open>os.getenv\<close> itself over an
  environment map. A character is a code point below 256 (HOL's \<open>char\<close>);
  on that range Python's \<open>str.isspace\<close> holds for 9 to 13, 28 to 32, 133
  and 160, and \<open>str.lower\<close> maps A to Z and the Latin-1 capitals 192 to
  222 (but 215, the multiplication sign) 32 code points up.
\<close>

type_synonym environ = "string \<rightharpoonup> string"

definition py_isspace :: "char \<Rightarrow> bool" where
  "py_isspace c =
     (let n = of_char c :: nat in (9 \<le> n \<and> n \<le> 13) \<or> (28 \<le> n \<and> n \<le> 32) \<or> n = 133 \<or> n = 160)"

definition py_strip :: "string \<Rightarrow> string" where
  "py_strip s = rev (dropWhile py_isspace (rev (dropWhile py_isspace s)))"

definition py_is_upper :: "char \<Rightarrow> bool" where
  "py_is_upper c =
     (let n = of_char c :: nat in (65 \<le> n \<and> n \<le> 90) \<or> (192 \<le> n \<and> n \<le> 222 \<and> n \<noteq> 215))"

definition py_lower_char :: "char \<Rightarrow> char" where
  "py_lower_char c = (if py_is_upper c then char_of (of_char c + (32::nat)) else c)"

definition py_lower :: "string \<Rightarrow> string" where
  "py_lower s = map py_lower_char s"

definition py_truthy :: "string option \<Rightarrow> bool" where
  "py_truthy v = (case v of None \<Rightarrow> False | Some s \<Rightarrow> s \<noteq> [])"

definition getenv :: "environ \<Rightarrow> string \<Rightarrow> string option" where
  "getenv env k = env k"

definition getenv_default :: "environ \<Rightarrow> string \<Rightarrow> string \<Rightarrow> string" where
  "getenv_default env k d = (case env k of None \<Rightarrow> d | Some v \<Rightarrow> v)"

section \<open>Lemmas\<close>

text \<open>The definitions that evaluate the built-ins on a literal string.\<close>

lemmas py_str_eval = py_strip_def py_isspace_def py_lower_def py_lower_char_def py_is_upper_def
  char_of_eq_iff

lemma all_dropWhile_iff: "(\<forall>x\<in>set (dropWhile P s). P x) \<longleftrightarrow> dropWhile P s = []"
proof
  assume all: "\<forall>x\<in>set (dropWhile P s). P x"
  show "dropWhile P s = []"
  proof (rule ccontr)
    assume ne: "dropWhile P s \<noteq> []"
    then have "\<not> P (hd (dropWhile P s))" by (rule hd_dropWhile)
    moreover have "hd (dropWhile P s) \<in> set (dropWhile P s)" using ne by (rule hd_in_set)
    ultimately show False using all by blast
  qed
next
  assume "dropWhile P s = []"
  then show "\<forall>x\<in>set (dropWhile P s). P x" by (simp del: dropWhile_eq_Nil_conv)
qed

lemma py_strip_Nil_iff: "py_strip s = [] \<longleftrightarrow> (\<forall>c\<in>set s. py_isspace c)"
proof -
  have "py_strip s = [] \<longleftrightarrow> (\<forall>x\<in>set (dropWhile py_isspace s). py_isspace x)"
    by (simp add: py_strip_def dropWhile_eq_Nil_conv [of _ "rev _"])
  also have "\<dots> \<longleftrightarrow> dropWhile py_isspace s = []" by (rule all_dropWhile_iff)
  also have "\<dots> \<longleftrightarrow> (\<forall>c\<in>set s. py_isspace c)" by (rule dropWhile_eq_Nil_conv)
  finally show ?thesis .
qed

end
