(* ===== verification/Repl.thy ===== *)
theory Repl
  imports Documentation Py_Builtins
begin

text \<open>
  The interactive loop \<open>repl()\<close> of \<open>main()\<close> in CLI mode (src/main.py,
  lines 58 to 70; the same code in src/src/agents-in-workflow/main.py,
  lines 74 to 86). The process's world is the record \<open>world\<close>: the lines
  standard input still holds, what was written to standard output, and
  the log of acquisitions and releases of the scoped resources.
  \<^item> \<open>repl_loop\<close> is the \<open>while True\<close> loop: \<open>input("You: ")\<close> writes the
    prompt and takes the next line (at the end of input it raises
    \<open>EOFError\<close>), \<open>.strip()\<close>, an empty line continues, a line whose
    lowercase is \<open>exit\<close> or \<open>quit\<close> prints \<open>Goodbye!\<close> and breaks, any
    other line is streamed through the workflow and each
    \<open>WorkflowOutputEvent\<close> printed as \<open>Agent: <data>\<close> and a blank line; an
    exception of the stream propagates out of the loop. The loop reads one
    line per iteration, so it is structural recursion on the input; a turn
    whose stream never ends makes it \<open>None\<close>.
  \<^item> \<open>repl\<close> is the \<open>async with mcp_tool, rewrite_agent, docs_agent,
    summarize_agent\<close> around it: the resources are entered in order (an
    entry may fail, \<open>enter\<close> says how) and the entered ones are exited in
    reverse order on every way out of the block.
  The stream function is a parameter: \<open>cli_stream\<close> instantiates it with
  the documentation workflow run on the agents of theory Agents.
\<close>

datatype res_event = Acquire string | Release string

datatype repl_exit = Finished | Raised py_error

record world =
  stdin :: "string list"
  stdout :: string
  res_log :: "res_event list"

type_synonym stream_fn = "json \<Rightarrow> (json run_event list \<times> py_error option) option"

fun print_events :: "json run_event list \<Rightarrow> string" where
  "print_events [] = []"
| "print_events (WorkflowOutputEvent d # evs) =
     ''Agent: '' @ json_text d @ ''\<newline>'' @ ''\<newline>'' @ print_events evs"
| "print_events (_ # evs) = print_events evs"

fun repl_loop :: "stream_fn \<Rightarrow> string list \<Rightarrow> string \<Rightarrow> (repl_exit \<times> string list \<times> string) option" where
  "repl_loop run_stream_fn [] out = Some (Raised EOFError, [], out @ ''You: '')"
| "repl_loop run_stream_fn (line # rest) out =
     (let out = out @ ''You: ''; user_input = py_strip line in
      if user_input = [] then repl_loop run_stream_fn rest out
      else if py_lower user_input \<in> {''exit'', ''quit''}
      then Some (Finished, rest, out @ ''Goodbye!'' @ ''\<newline>'')
      else (case run_stream_fn (JStr user_input) of
              None \<Rightarrow> None
            | Some (evs, err) \<Rightarrow>
                (let out = out @ print_events evs in
                 case err of
                   None \<Rightarrow> repl_loop run_stream_fn rest out
                 | Some e \<Rightarrow> Some (Raised e, rest, out))))"

text \<open>Entering the resources in order; the result lists the entered ones, last first.\<close>

fun acquire_all ::
  "(string \<Rightarrow> py_error option) \<Rightarrow> string list \<Rightarrow> string list \<Rightarrow> string list \<times> py_error option" where
  "acquire_all enter [] held = (held, None)"
| "acquire_all enter (r # rs) held =
     (case enter r of
        Some e \<Rightarrow> (held, Some e)
      | None \<Rightarrow> acquire_all enter rs (r # held))"

definition repl ::
  "(string \<Rightarrow> py_error option) \<Rightarrow> stream_fn \<Rightarrow> string list \<Rightarrow> world \<Rightarrow> (repl_exit \<times> world) option" where
  "repl enter run_stream_fn resources w =
     (case acquire_all enter resources [] of
        (held, Some e) \<Rightarrow>
          Some (Raised e, w\<lparr>res_log := res_log w @ map Acquire (rev held) @ map Release held\<rparr>)
      | (held, None) \<Rightarrow>
          map_option (\<lambda>(ex, rest, out).
              (ex, w\<lparr>stdin := rest, stdout := out,
                     res_log := res_log w @ map Acquire (rev held) @ map Release held\<rparr>))
            (repl_loop run_stream_fn (stdin w) (stdout w)))"

text \<open>The resources of the \<open>async with\<close>, in the order the code lists them.\<close>

definition cli_resources :: "mcp_tool \<Rightarrow> chat_agent \<Rightarrow> chat_agent \<Rightarrow> chat_agent \<Rightarrow> string list" where
  "cli_resources mcp_tool rewrite_agent docs_agent summarize_agent =
     [tool_name mcp_tool, agent_name rewrite_agent, agent_name docs_agent, agent_name summarize_agent]"

definition cli_stream :: "services \<Rightarrow> chat_agent workflow \<Rightarrow> stream_fn" where
  "cli_stream svc workflow user_input = run_stream (doc_respond svc) workflow user_input"

section \<open>Lemmas\<close>

lemma acquire_all_shape:
  "acquire_all enter rs held = (held', err) \<Longrightarrow>
   \<exists>k\<le>length rs. held' = rev (take k rs) @ held \<and>
     (case err of None \<Rightarrow> k = length rs | Some e \<Rightarrow> k < length rs \<and> enter (rs ! k) = Some e)"
proof (induction rs arbitrary: held)
  case Nil
  then show ?case by simp
next
  case (Cons r rs)
  show ?case
  proof (cases "enter r")
    case None
    with Cons.prems have "acquire_all enter rs (r # held) = (held', err)" by simp
    from Cons.IH [OF this] obtain k where "k \<le> length rs" "held' = rev (take k rs) @ r # held"
      "case err of None \<Rightarrow> k = length rs | Some e \<Rightarrow> k < length rs \<and> enter (rs ! k) = Some e"
      by blast
    then show ?thesis by (intro exI [of _ "Suc k"]) (simp_all split: option.splits)
  next
    case (Some e)
    with Cons.prems have "held' = held" "err = Some e" by simp_all
    with Some show ?thesis by (intro exI [of _ 0]) simp_all
  qed
qed

lemma acquire_all_ok:
  "\<forall>r\<in>set rs. enter r = None \<Longrightarrow> acquire_all enter rs held = (rev rs @ held, None)"
  by (induction rs arbitrary: held) auto

lemma repl_entered:
  assumes "\<forall>r\<in>set rs. enter r = None"
  shows "repl enter f rs w =
           map_option (\<lambda>(ex, rest, out). (ex, w\<lparr>stdin := rest, stdout := out,
                 res_log := res_log w @ map Acquire rs @ map Release (rev rs)\<rparr>))
             (repl_loop f (stdin w) (stdout w))"
  by (simp add: repl_def acquire_all_ok [OF assms])

lemma repl_loop_blanks:
  "\<forall>l\<in>set bs. \<forall>c\<in>set l. py_isspace c \<Longrightarrow>
   repl_loop f (bs @ ls) out = repl_loop f ls (out @ concat (replicate (length bs) ''You: ''))"
  by (induction bs arbitrary: out) (auto simp: py_strip_Nil_iff)

lemma py_lower_Nil [simp]: "py_lower [] = []"
  by (simp add: py_lower_def)

lemma repl_loop_exit:
  "py_lower (py_strip l) \<in> {''exit'', ''quit''} \<Longrightarrow>
   repl_loop f (l # ls) out = Some (Finished, ls, out @ ''You: Goodbye!\<newline>'')"
  by (auto simp: Let_def)

lemma repl_loop_turn:
  assumes "py_strip l \<noteq> []" and "py_lower (py_strip l) \<notin> {''exit'', ''quit''}"
    and "f (JStr (py_strip l)) = Some (evs, err)"
  shows "repl_loop f (l # ls) out =
           (case err of
              None \<Rightarrow> repl_loop f ls (out @ ''You: '' @ print_events evs)
            | Some e \<Rightarrow> Some (Raised e, ls, out @ ''You: '' @ print_events evs))"
  using assms by (simp add: Let_def del: insert_iff split: option.split)

lemma print_events_output_data:
  "print_events evs = concat (map (\<lambda>d. ''Agent: '' @ json_text d @ ''\<newline>\<newline>'') (output_data evs))"
  by (induction evs rule: print_events.induct) simp_all

lemma repl_turn_raises:
  assumes "\<forall>r\<in>set rs. enter r = None" and "stdin w = l # ls"
    and "py_strip l \<noteq> []" and "py_lower (py_strip l) \<notin> {''exit'', ''quit''}"
    and "f (JStr (py_strip l)) = Some (evs, Some e)"
  shows "repl enter f rs w =
           Some (Raised e, w\<lparr>stdin := ls, stdout := stdout w @ ''You: '' @ print_events evs,
                  res_log := res_log w @ map Acquire rs @ map Release (rev rs)\<rparr>)"
  by (simp add: repl_entered [OF assms(1)] assms(2) repl_loop_turn [where f = f and l = l, OF assms(3-5)]
           del: repl_loop.simps)

lemma repl_turn_continues:
  assumes "py_strip l \<noteq> []" and "py_lower (py_strip l) \<notin> {''exit'', ''quit''}"
    and "f (JStr (py_strip l)) = Some (evs, None)"
  shows "repl_loop f (l # ls) out = repl_loop f ls (out @ ''You: '' @ print_events evs)"
  using repl_loop_turn [where f = f and l = l, OF assms] by simp

section \<open>Properties of the REPL\<close>

text \<open>
  Claim C7: the scoped resources are released on every way out of the
  REPL: whether it ends on \<open>exit\<close>, on the end of input, on an exception of
  a turn, or because entering one of them failed, the resources entered
  are exactly a prefix of the list, each is exited once, in reverse order;
  and only a failed entry stops the prefix short.
\<close>

theorem repl_releases_resources:
  assumes "repl enter f rs w = Some (ex, w')"
  shows "\<exists>k\<le>length rs.
           res_log w' = res_log w @ map Acquire (take k rs) @ map Release (rev (take k rs)) \<and>
           (k < length rs \<longrightarrow> enter (rs ! k) \<noteq> None \<and> ex = Raised (the (enter (rs ! k))))"
proof -
  obtain held err where a: "acquire_all enter rs [] = (held, err)"
    by (cases "acquire_all enter rs []")
  from acquire_all_shape [OF a] obtain k where k: "k \<le> length rs" "held = rev (take k rs)"
    "case err of None \<Rightarrow> k = length rs | Some e \<Rightarrow> k < length rs \<and> enter (rs ! k) = Some e"
    by auto
  show ?thesis
  proof (cases err)
    case None
    with assms a k show ?thesis by (auto simp: repl_def split: prod.splits)
  next
    case (Some e)
    with assms a k show ?thesis by (auto simp: repl_def intro!: exI [of _ k])
  qed
qed

theorem repl_releases_resources_witness:
  "repl (\<lambda>r. if r = ''microsoft-docs-agent'' then Some (RuntimeError ''session closed'') else None)
     (\<lambda>u. None) [''Microsoft Learn MCP'', ''rewrite-agent'', ''microsoft-docs-agent'', ''summarize-agent''] \<lparr>stdin = [''exit''], stdout = [], res_log = []\<rparr> =
   Some (Raised (RuntimeError ''session closed''), \<lparr>stdin = [''exit''], stdout = [],
          res_log = [Acquire ''Microsoft Learn MCP'', Acquire ''rewrite-agent'',
                     Release ''rewrite-agent'', Release ''Microsoft Learn MCP'']\<rparr>) \<and>
   (\<exists>k\<le>length [''Microsoft Learn MCP'', ''rewrite-agent'', ''microsoft-docs-agent'', ''summarize-agent''].
      res_log \<lparr>stdin = [''exit''], stdout = [],
          res_log = [Acquire ''Microsoft Learn MCP'', Acquire ''rewrite-agent'',
                     Release ''rewrite-agent'', Release ''Microsoft Learn MCP'']\<rparr> =
      res_log \<lparr>stdin = [''exit''], stdout = [], res_log = []\<rparr> @ map Acquire (take k [''Microsoft Learn MCP'', ''rewrite-agent'', ''microsoft-docs-agent'', ''summarize-agent'']) @ map Release (rev (take k [''Microsoft Learn MCP'', ''rewrite-agent'', ''microsoft-docs-agent'', ''summarize-agent''])) \<and>
      (k < length [''Microsoft Learn MCP'', ''rewrite-agent'', ''microsoft-docs-agent'', ''summarize-agent''] \<longrightarrow>
       (\<lambda>r. if r = ''microsoft-docs-agent'' then Some (RuntimeError ''session closed'') else None) ([''Microsoft Learn MCP'', ''rewrite-agent'', ''microsoft-docs-agent'', ''summarize-agent''] ! k) \<noteq> None \<and>
       Raised (RuntimeError ''session closed'') = Raised (the ((\<lambda>r. if r = ''microsoft-docs-agent'' then Some (RuntimeError ''session closed'') else None) ([''Microsoft Learn MCP'', ''rewrite-agent'', ''microsoft-docs-agent'', ''summarize-agent''] ! k)))))"
proof -
  have run: "repl (\<lambda>r. if r = ''microsoft-docs-agent'' then Some (RuntimeError ''session closed'') else None)
     (\<lambda>u. None) [''Microsoft Learn MCP'', ''rewrite-agent'', ''microsoft-docs-agent'', ''summarize-agent''] \<lparr>stdin = [''exit''], stdout = [], res_log = []\<rparr> =
   Some (Raised (RuntimeError ''session closed''), \<lparr>stdin = [''exit''], stdout = [],
          res_log = [Acquire ''Microsoft Learn MCP'', Acquire ''rewrite-agent'',
                     Release ''rewrite-agent'', Release ''Microsoft Learn MCP'']\<rparr>)"
    by (simp add: repl_def)
  show ?thesis
    by (intro conjI run repl_releases_resources [OF run])
qed

text \<open>
  Claim C18: blank and whitespace-only lines are skipped: once the
  resources are entered, each of them only writes a prompt, and the
  session then runs as if they had not been typed; the workflow is not
  run for them.
\<close>

theorem repl_blank_lines_skipped:
  assumes "\<forall>r\<in>set rs. enter r = None" and "\<forall>l\<in>set bs. \<forall>c\<in>set l. py_isspace c"
  shows "repl enter f rs (w\<lparr>stdin := bs @ ls\<rparr>) =
         repl enter f rs (w\<lparr>stdin := ls, stdout := stdout w @ concat (replicate (length bs) ''You: '')\<rparr>)"
  by (simp add: repl_entered [OF assms(1)] repl_loop_blanks [OF assms(2)] del: repl_loop.simps)

theorem repl_blank_lines_skipped_witness:
  "repl (\<lambda>r. None) (\<lambda>u. None) [''Microsoft Learn MCP'']
     \<lparr>stdin = [''   '', [CHR 0x09, CHR 0x20], ''quit''], stdout = [], res_log = []\<rparr> =
   Some (Finished, \<lparr>stdin = [], stdout = ''You: You: You: Goodbye!\<newline>'',
     res_log = [Acquire ''Microsoft Learn MCP'', Release ''Microsoft Learn MCP'']\<rparr>)"
proof -
  have "repl (\<lambda>r. None) (\<lambda>u. None) [''Microsoft Learn MCP'']
          (\<lparr>stdin = [], stdout = [], res_log = []\<rparr>\<lparr>stdin := [''   '', [CHR 0x09, CHR 0x20]] @ [''quit'']\<rparr>) =
        repl (\<lambda>r. None) (\<lambda>u. None) [''Microsoft Learn MCP'']
          (\<lparr>stdin = [], stdout = [], res_log = []\<rparr>\<lparr>stdin := [''quit''],
             stdout := stdout \<lparr>stdin = [], stdout = [], res_log = []\<rparr> @
                       concat (replicate (length [''   '', [CHR 0x09, CHR 0x20]]) ''You: '')\<rparr>)"
    by (rule repl_blank_lines_skipped) (simp_all add: py_isspace_def)
  also have "\<dots> = Some (Finished, \<lparr>stdin = [], stdout = ''You: You: You: Goodbye!\<newline>'',
     res_log = [Acquire ''Microsoft Learn MCP'', Release ''Microsoft Learn MCP'']\<rparr>)"
    by (simp add: repl_def py_str_eval)
  finally show ?thesis by simp
qed

text \<open>
  Claim C8: a line that reads \<open>exit\<close> or \<open>quit\<close> once stripped and
  lowercased prints \<open>Goodbye!\<close> and ends the session normally, without
  running the workflow, leaving the lines after it unread, and with every
  resource exited in reverse order (spec scenario C).
\<close>

theorem repl_exit_releases:
  assumes "\<forall>r\<in>set rs. enter r = None" and "stdin w = l # ls"
    and "py_lower (py_strip l) \<in> {''exit'', ''quit''}"
  shows "repl enter f rs w =
           Some (Finished, w\<lparr>stdin := ls, stdout := stdout w @ ''You: Goodbye!\<newline>'',
                  res_log := res_log w @ map Acquire rs @ map Release (rev rs)\<rparr>)"
  by (simp add: repl_entered [OF assms(1)] assms(2) repl_loop_exit [OF assms(3)] del: repl_loop.simps)

theorem repl_exit_releases_witness:
  "repl (\<lambda>r. None) (\<lambda>u. None) [''Microsoft Learn MCP'', ''rewrite-agent'']
     \<lparr>stdin = [''  QuIt '', ''What is Azure Blob Storage?''], stdout = [], res_log = []\<rparr> =
   Some (Finished, \<lparr>stdin = [''What is Azure Blob Storage?''], stdout = ''You: Goodbye!\<newline>'',
     res_log = [Acquire ''Microsoft Learn MCP'', Acquire ''rewrite-agent'',
                Release ''rewrite-agent'', Release ''Microsoft Learn MCP'']\<rparr>)"
proof -
  have quit: "py_lower (py_strip ''  QuIt '') \<in> {''exit'', ''quit''}"
    by (simp add: py_str_eval)
  have "repl (\<lambda>r. None) (\<lambda>u. None) [''Microsoft Learn MCP'', ''rewrite-agent'']
          \<lparr>stdin = [''  QuIt '', ''What is Azure Blob Storage?''], stdout = [], res_log = []\<rparr> =
        Some (Finished, \<lparr>stdin = [''  QuIt '', ''What is Azure Blob Storage?''], stdout = [], res_log = []\<rparr>
          \<lparr>stdin := [''What is Azure Blob Storage?''],
           stdout := stdout \<lparr>stdin = [''  QuIt '', ''What is Azure Blob Storage?''], stdout = [], res_log = []\<rparr> @
                     ''You: Goodbye!\<newline>'',
           res_log := res_log \<lparr>stdin = [''  QuIt '', ''What is Azure Blob Storage?''], stdout = [], res_log = []\<rparr> @
             map Acquire [''Microsoft Learn MCP'', ''rewrite-agent''] @
             map Release (rev [''Microsoft Learn MCP'', ''rewrite-agent''])\<rparr>)"
    by (rule repl_exit_releases [OF _ _ quit]) simp_all
  then show ?thesis by simp
qed

text \<open>
  Claim C19: at the end of input (standard input closed, possibly after
  blank lines) \<open>input()\<close> raises \<open>EOFError\<close>: the session ends with that
  exception, not with \<open>Goodbye!\<close>, after exiting every resource.
\<close>

theorem repl_eof:
  assumes "\<forall>r\<in>set rs. enter r = None" and "\<forall>l\<in>set (stdin w). \<forall>c\<in>set l. py_isspace c"
  shows "repl enter f rs w =
           Some (Raised EOFError,
                 w\<lparr>stdin := [], stdout := stdout w @ concat (replicate (length (stdin w)) ''You: '') @ ''You: '',
                   res_log := res_log w @ map Acquire rs @ map Release (rev rs)\<rparr>)"
  using repl_loop_blanks [OF assms(2), of f "[]" "stdout w"]
  by (simp add: repl_entered [OF assms(1)])

theorem repl_eof_witness:
  "repl (\<lambda>r. None) (\<lambda>u. None) [''Microsoft Learn MCP'']
     \<lparr>stdin = [''  ''], stdout = [], res_log = []\<rparr> =
   Some (Raised EOFError, \<lparr>stdin = [], stdout = ''You: You: '',
     res_log = [Acquire ''Microsoft Learn MCP'', Release ''Microsoft Learn MCP'']\<rparr>)"
proof -
  have "repl (\<lambda>r. None) (\<lambda>u. None) [''Microsoft Learn MCP'']
          \<lparr>stdin = [''  ''], stdout = [], res_log = []\<rparr> =
        Some (Raised EOFError, \<lparr>stdin = [''  ''], stdout = [], res_log = []\<rparr>
          \<lparr>stdin := [],
           stdout := stdout \<lparr>stdin = [''  ''], stdout = [], res_log = []\<rparr> @
             concat (replicate (length (stdin \<lparr>stdin = [''  ''], stdout = [], res_log = []\<rparr>)) ''You: '') @
             ''You: '',
           res_log := res_log \<lparr>stdin = [''  ''], stdout = [], res_log = []\<rparr> @
             map Acquire [''Microsoft Learn MCP''] @ map Release (rev [''Microsoft Learn MCP''])\<rparr>)"
    by (rule repl_eof) (simp_all add: py_isspace_def)
  then show ?thesis by simp
qed

end
