(* ===== verification/App.thy ===== *)
theory App
  imports Repl
begin

text \<open>
  The two entry points: src/main.py and src/src/agents-in-workflow/main.py.
  Each reads \<open>MODE\<close> once, at import, from the process environment;
  \<open>create_workflow\<close> then loads \<open>.env\<close> over the environment
  (\<open>load_dotenv(override=True)\<close>: a key of the file replaces the
  environment's), reads the three \<open>AZURE_OPENAI_*\<close> variables, checks
  them, builds the chat client, the three agents and the documentation
  workflow; \<open>main\<close> dispatches on the mode.
  \<^item> \<open>create_workflow\<close> (main.py) requires a non-empty endpoint and API key
    and authenticates with the key; \<open>create_workflow_aiw\<close>
    (agents-in-workflow) requires only the endpoint, prints the loaded
    configuration with the key masked, and authenticates with
    \<open>DefaultAzureCredential\<close>. Both return the new environment, since
    \<open>load_dotenv\<close> writes \<open>os.environ\<close>.
  \<^item> \<open>main\<close> and \<open>main_aiw\<close>: the CLI mode prints its banner and runs the
    REPL of theory Repl on the process's world; the hosted-agent and Dev UI
    modes hand the workflow (and, for the Dev UI, the agents) to servers
    outside the repository, recorded in the outcome; a mode matching no
    branch does nothing. The default mode is \<open>cli\<close> in main.py and
    \<open>devui\<close> in agents-in-workflow/main.py, as the code has them.
\<close>

type_synonym app = "chat_agent workflow \<times> chat_agent \<times> chat_agent \<times> chat_agent \<times> mcp_tool"

datatype main_outcome =
    Crashed py_error
  | ServedHosted "chat_agent workflow"
  | ServedDevUI "chat_agent workflow" "chat_agent list"
  | CliEnded repl_exit
  | NoModeMatched

definition load_dotenv :: "environ \<Rightarrow> environ \<Rightarrow> environ" where
  "load_dotenv env dotenv = env ++ dotenv"

definition py_fmt_opt :: "string option \<Rightarrow> string" where
  "py_fmt_opt v = (case v of None \<Rightarrow> ''None'' | Some s \<Rightarrow> s)"

text \<open>The agents and the workflow over one chat client, as both entry points build them.\<close>

definition build_app :: "chat_client \<Rightarrow> app result" where
  "build_app chat_client =
     (let rewrite_agent = create_rewrite_agent chat_client;
          (docs_agent, mcp_tool) = create_docs_agent chat_client;
          summarize_agent = create_summarize_agent chat_client
      in res_bind (create_documentation_workflow rewrite_agent docs_agent summarize_agent)
           (\<lambda>workflow. Inr (workflow, rewrite_agent, docs_agent, summarize_agent, mcp_tool)))"

definition create_workflow :: "environ \<Rightarrow> environ \<Rightarrow> environ \<times> app result" where
  "create_workflow env dotenv =
     (let env = load_dotenv env dotenv;
          endpoint = getenv env ''AZURE_OPENAI_ENDPOINT'';
          api_key = getenv env ''AZURE_OPENAI_API_KEY'';
          deployment = getenv env ''AZURE_OPENAI_RESPONSES_DEPLOYMENT_NAME''
      in if \<not> py_truthy endpoint \<or> \<not> py_truthy api_key
         then (env, Inl (RuntimeError ''AZURE_OPENAI_ENDPOINT and AZURE_OPENAI_API_KEY must be set in .env''))
         else (env, build_app \<lparr>cc_endpoint = the endpoint, cc_deployment_name = deployment,
                               cc_credential = ApiKey (the api_key)\<rparr>))"

definition create_workflow_aiw :: "environ \<Rightarrow> environ \<Rightarrow> environ \<times> string \<times> app result" where
  "create_workflow_aiw env dotenv =
     (let env = load_dotenv env dotenv;
          endpoint = getenv env ''AZURE_OPENAI_ENDPOINT'';
          api_key = getenv env ''AZURE_OPENAI_API_KEY'';
          deployment = getenv env ''AZURE_OPENAI_RESPONSES_DEPLOYMENT_NAME'';
          line = ''Loaded environment variables: ENDPOINT='' @ py_fmt_opt endpoint @
                 '', DEPLOYMENT='' @ py_fmt_opt deployment @
                 '', API_KEY='' @ (if py_truthy api_key then ''***'' else ''None'') @ ''\<newline>''
      in if \<not> py_truthy endpoint
         then (env, line, Inl (RuntimeError ''AZURE_OPENAI_ENDPOINT must be set in .env''))
         else (env, line, build_app \<lparr>cc_endpoint = the endpoint, cc_deployment_name = deployment,
                                     cc_credential = DefaultAzureCredential\<rparr>))"

definition cli_banner :: string where
  "cli_banner =
     ''Starting in CLI mode...\<newline>'' @
     ''Microsoft Docs Agent Workflow. Ask a question about Microsoft services.\<newline>'' @
     ''Type 'exit' to quit.\<newline>\<newline>''"

definition devui_banner :: string where
  "devui_banner =
     ''Starting in Dev UI mode...\<newline>'' @
     ''Microsoft Docs Agent Workflow. Dev UI will open in your browser.\<newline>''"

definition hosted_banner :: string where
  "hosted_banner = ''Starting in Hosted Agent mode...\<newline>''"

text \<open>
  The dispatch of \<open>main()\<close> once the workflow is built; \<open>stream\<close> is how
  the REPL runs the workflow (\<open>workflow.run_stream\<close>, patched or not).
\<close>

definition dispatch ::
  "string \<Rightarrow> (chat_agent workflow \<Rightarrow> stream_fn) \<Rightarrow> (string \<Rightarrow> py_error option) \<Rightarrow> app \<Rightarrow> world \<Rightarrow>
   (main_outcome \<times> world) option" where
  "dispatch mode stream enter a w =
     (case a of (workflow, rewrite_agent, docs_agent, summarize_agent, mcp_tool) \<Rightarrow>
        if mode = ''hosted_agent''
        then Some (ServedHosted workflow, w\<lparr>stdout := stdout w @ hosted_banner\<rparr>)
        else if mode = ''cli''
        then map_option (\<lambda>(ex, w'). (CliEnded ex, w'))
               (repl enter (stream workflow)
                  (cli_resources mcp_tool rewrite_agent docs_agent summarize_agent)
                  (w\<lparr>stdout := stdout w @ cli_banner\<rparr>))
        else if mode = ''devui''
        then Some (ServedDevUI workflow [rewrite_agent, docs_agent, summarize_agent],
                   w\<lparr>stdout := stdout w @ devui_banner\<rparr>)
        else Some (NoModeMatched, w))"

definition main ::
  "environ \<Rightarrow> environ \<Rightarrow> services \<Rightarrow> (string \<Rightarrow> py_error option) \<Rightarrow> world \<Rightarrow>
   (main_outcome \<times> world) option" where
  "main env dotenv svc enter w =
     (let mode = getenv_default env ''MODE'' ''cli'' in
      case snd (create_workflow env dotenv) of
        Inl e \<Rightarrow> Some (Crashed e, w)
      | Inr a \<Rightarrow> dispatch mode (cli_stream svc) enter a w)"

definition cli_stream_aiw :: "services \<Rightarrow> chat_agent workflow \<Rightarrow> stream_fn" where
  "cli_stream_aiw svc workflow user_input =
     patched_run_stream (doc_respond svc) workflow user_input ([] :: (string \<times> unit) list)"

definition main_aiw ::
  "environ \<Rightarrow> environ \<Rightarrow> services \<Rightarrow> (string \<Rightarrow> py_error option) \<Rightarrow> world \<Rightarrow>
   (main_outcome \<times> world) option" where
  "main_aiw env dotenv svc enter w =
     (let mode = getenv_default env ''MODE'' ''devui'' in
      case create_workflow_aiw env dotenv of
        (env', line, Inl e) \<Rightarrow> Some (Crashed e, w\<lparr>stdout := stdout w @ line\<rparr>)
      | (env', line, Inr a) \<Rightarrow> dispatch mode (cli_stream_aiw svc) enter a (w\<lparr>stdout := stdout w @ line\<rparr>))"

section \<open>Lemmas\<close>

text \<open>Reading a variable after \<open>load_dotenv\<close> depends on that key alone.\<close>

lemma getenv_load_dotenv_upd_other:
  "k' \<noteq> k \<Longrightarrow> getenv (load_dotenv env (dotenv(k := v))) k' = getenv (load_dotenv env dotenv) k'"
  by (simp add: getenv_def load_dotenv_def map_add_def)

lemma build_app_repo:
  "build_app cc =
     Inr (chain_shape (map executor_of (repo_agents cc)), create_rewrite_agent cc,
          fst (create_docs_agent cc), create_summarize_agent cc, snd (create_docs_agent cc))"
  by (simp add: build_app_def split_def Let_def repo_workflow)

lemma create_workflow_result:
  "snd (create_workflow env dotenv) =
     (if \<not> py_truthy (getenv (load_dotenv env dotenv) ''AZURE_OPENAI_ENDPOINT'') \<or>
         \<not> py_truthy (getenv (load_dotenv env dotenv) ''AZURE_OPENAI_API_KEY'')
      then Inl (RuntimeError ''AZURE_OPENAI_ENDPOINT and AZURE_OPENAI_API_KEY must be set in .env'')
      else build_app \<lparr>cc_endpoint = the (getenv (load_dotenv env dotenv) ''AZURE_OPENAI_ENDPOINT''),
             cc_deployment_name = getenv (load_dotenv env dotenv) ''AZURE_OPENAI_RESPONSES_DEPLOYMENT_NAME'',
             cc_credential = ApiKey (the (getenv (load_dotenv env dotenv) ''AZURE_OPENAI_API_KEY''))\<rparr>)"
  by (simp add: create_workflow_def Let_def)

lemma create_workflow_aiw_result:
  "snd (snd (create_workflow_aiw env dotenv)) =
     (if \<not> py_truthy (getenv (load_dotenv env dotenv) ''AZURE_OPENAI_ENDPOINT'')
      then Inl (RuntimeError ''AZURE_OPENAI_ENDPOINT must be set in .env'')
      else build_app \<lparr>cc_endpoint = the (getenv (load_dotenv env dotenv) ''AZURE_OPENAI_ENDPOINT''),
             cc_deployment_name = getenv (load_dotenv env dotenv) ''AZURE_OPENAI_RESPONSES_DEPLOYMENT_NAME'',
             cc_credential = DefaultAzureCredential\<rparr>)"
  by (simp add: create_workflow_aiw_def Let_def)

lemma main_unfold:
  "main env dotenv svc enter w =
     (case snd (create_workflow env dotenv) of
        Inl e \<Rightarrow> Some (Crashed e, w)
      | Inr a \<Rightarrow> dispatch (getenv_default env ''MODE'' ''cli'') (cli_stream svc) enter a w)"
  by (simp add: main_def)

lemma main_aiw_unfold:
  "main_aiw env dotenv svc enter w =
     (case snd (snd (create_workflow_aiw env dotenv)) of
        Inl e \<Rightarrow> Some (Crashed e, w\<lparr>stdout := stdout w @ fst (snd (create_workflow_aiw env dotenv))\<rparr>)
      | Inr a \<Rightarrow> dispatch (getenv_default env ''MODE'' ''devui'') (cli_stream_aiw svc) enter a
                  (w\<lparr>stdout := stdout w @ fst (snd (create_workflow_aiw env dotenv))\<rparr>))"
  by (simp add: main_aiw_def split: prod.split sum.split)

lemma dispatch_not_crashed: "dispatch mode stream enter a w \<noteq> Some (Crashed e, w')"
  by (cases a) (auto simp: dispatch_def)

lemma create_workflow_upd_other:
  assumes "k \<notin> {''AZURE_OPENAI_ENDPOINT'', ''AZURE_OPENAI_API_KEY'', ''AZURE_OPENAI_RESPONSES_DEPLOYMENT_NAME''}"
  shows "snd (create_workflow env (dotenv(k := v))) = snd (create_workflow env dotenv)"
    and "snd (create_workflow_aiw env (dotenv(k := v))) = snd (create_workflow_aiw env dotenv)"
proof -
  have "''AZURE_OPENAI_ENDPOINT'' \<noteq> k" "''AZURE_OPENAI_API_KEY'' \<noteq> k"
       "''AZURE_OPENAI_RESPONSES_DEPLOYMENT_NAME'' \<noteq> k"
    using assms by auto
  note same = getenv_load_dotenv_upd_other [OF this(1)] getenv_load_dotenv_upd_other [OF this(2)]
              getenv_load_dotenv_upd_other [OF this(3)]
  show "snd (create_workflow env (dotenv(k := v))) = snd (create_workflow env dotenv)"
    by (simp only: create_workflow_result same)
  show "snd (create_workflow_aiw env (dotenv(k := v))) = snd (create_workflow_aiw env dotenv)"
    by (simp add: create_workflow_aiw_def Let_def same)
qed

lemma repo_cli_resources:
  "cli_resources (snd (create_docs_agent cc)) (create_rewrite_agent cc) (fst (create_docs_agent cc))
     (create_summarize_agent cc) =
   [''Microsoft Learn MCP'', ''rewrite-agent'', ''microsoft-docs-agent'', ''summarize-agent'']"
  by (simp add: cli_resources_def repo_agent_names create_docs_agent_def Let_def)

lemma create_workflow_configured:
  assumes "load_dotenv env dotenv ''AZURE_OPENAI_ENDPOINT'' = Some endpoint" and "endpoint \<noteq> []"
    and "load_dotenv env dotenv ''AZURE_OPENAI_API_KEY'' = Some api_key" and "api_key \<noteq> []"
  shows "snd (create_workflow env dotenv) =
           Inr (let cc = \<lparr>cc_endpoint = endpoint,
                    cc_deployment_name = load_dotenv env dotenv ''AZURE_OPENAI_RESPONSES_DEPLOYMENT_NAME'',
                    cc_credential = ApiKey api_key\<rparr>
                in (chain_shape (map executor_of (repo_agents cc)), create_rewrite_agent cc,
                    fst (create_docs_agent cc), create_summarize_agent cc, snd (create_docs_agent cc)))"
  using assms by (simp add: create_workflow_result build_app_repo getenv_def py_truthy_def Let_def)

lemma create_workflow_aiw_configured:
  assumes "load_dotenv env dotenv ''AZURE_OPENAI_ENDPOINT'' = Some endpoint" and "endpoint \<noteq> []"
  shows "create_workflow_aiw env dotenv =
           (load_dotenv env dotenv,
            ''Loaded environment variables: ENDPOINT='' @ endpoint @
            '', DEPLOYMENT='' @ py_fmt_opt (load_dotenv env dotenv ''AZURE_OPENAI_RESPONSES_DEPLOYMENT_NAME'') @
            '', API_KEY='' @ (if py_truthy (load_dotenv env dotenv ''AZURE_OPENAI_API_KEY'') then ''***'' else ''None'') @ ''\<newline>'',
            Inr (let cc = \<lparr>cc_endpoint = endpoint,
                    cc_deployment_name = load_dotenv env dotenv ''AZURE_OPENAI_RESPONSES_DEPLOYMENT_NAME'',
                    cc_credential = DefaultAzureCredential\<rparr>
                in (chain_shape (map executor_of (repo_agents cc)), create_rewrite_agent cc,
                    fst (create_docs_agent cc), create_summarize_agent cc, snd (create_docs_agent cc))))"
  using assms by (simp add: create_workflow_aiw_def build_app_repo getenv_def py_truthy_def py_fmt_opt_def Let_def)

lemma cli_stream_aiw_eq: "cli_stream_aiw svc = cli_stream svc"
  by (intro ext) (simp add: cli_stream_aiw_def cli_stream_def patched_run_stream_def)

lemma main_aiw_cli:
  assumes "getenv_default env ''MODE'' ''devui'' = ''cli''"
    and "load_dotenv env dotenv ''AZURE_OPENAI_ENDPOINT'' = Some endpoint" and "endpoint \<noteq> []"
  shows "main_aiw env dotenv svc enter w =
           map_option (\<lambda>(ex, w'). (CliEnded ex, w'))
             (repl enter
                (cli_stream svc (chain_shape (map executor_of (repo_agents
                   \<lparr>cc_endpoint = endpoint,
                    cc_deployment_name = load_dotenv env dotenv ''AZURE_OPENAI_RESPONSES_DEPLOYMENT_NAME'',
                    cc_credential = DefaultAzureCredential\<rparr>))))
                [''Microsoft Learn MCP'', ''rewrite-agent'', ''microsoft-docs-agent'', ''summarize-agent'']
                (w\<lparr>stdout := stdout w @ fst (snd (create_workflow_aiw env dotenv)) @ cli_banner\<rparr>))"
  unfolding main_aiw_unfold assms(1) create_workflow_aiw_configured [OF assms(2,3)]
  by (simp add: dispatch_def Let_def repo_cli_resources cli_stream_aiw_eq)

text \<open>A configured src/main.py in CLI mode is the REPL over the repository's workflow.\<close>

lemma main_cli:
  assumes "getenv_default env ''MODE'' ''cli'' = ''cli''"
    and "load_dotenv env dotenv ''AZURE_OPENAI_ENDPOINT'' = Some endpoint" and "endpoint \<noteq> []"
    and "load_dotenv env dotenv ''AZURE_OPENAI_API_KEY'' = Some api_key" and "api_key \<noteq> []"
  shows "main env dotenv svc enter w =
           map_option (\<lambda>(ex, w'). (CliEnded ex, w'))
             (repl enter
                (cli_stream svc (chain_shape (map executor_of (repo_agents
                   \<lparr>cc_endpoint = endpoint,
                    cc_deployment_name = load_dotenv env dotenv ''AZURE_OPENAI_RESPONSES_DEPLOYMENT_NAME'',
                    cc_credential = ApiKey api_key\<rparr>))))
                [''Microsoft Learn MCP'', ''rewrite-agent'', ''microsoft-docs-agent'', ''summarize-agent'']
                (w\<lparr>stdout := stdout w @ cli_banner\<rparr>))"
  unfolding main_unfold assms(1) create_workflow_configured [OF assms(2-5)]
  by (simp add: dispatch_def Let_def repo_cli_resources)

section \<open>Properties of the entry points\<close>

text \<open>
  Claim C6: src/main.py stops before building anything, with the
  \<open>RuntimeError\<close> of line 27, exactly when the endpoint or the API key is
  unset or empty once \<open>.env\<close> is loaded (spec section 6: no partial
  startup); it prints nothing and enters no resource then.
\<close>

theorem main_config_required:
  "main env dotenv svc enter w =
     Some (Crashed (RuntimeError ''AZURE_OPENAI_ENDPOINT and AZURE_OPENAI_API_KEY must be set in .env''), w) \<longleftrightarrow>
   \<not> py_truthy (getenv (load_dotenv env dotenv) ''AZURE_OPENAI_ENDPOINT'') \<or>
   \<not> py_truthy (getenv (load_dotenv env dotenv) ''AZURE_OPENAI_API_KEY'')"
  by (simp add: main_unfold create_workflow_result build_app_repo dispatch_not_crashed)

theorem main_config_required_witness:
  "main Map.empty [''AZURE_OPENAI_ENDPOINT'' \<mapsto> ''https://docs.openai.azure.com'', ''AZURE_OPENAI_API_KEY'' \<mapsto> []]
     \<lparr>infer = \<lambda>a ms. Inr (FinalReply JNull), call_tool = \<lambda>t op args. Inr JNull\<rparr> (\<lambda>r. None) \<lparr>stdin = [''exit''], stdout = [], res_log = []\<rparr> =
   Some (Crashed (RuntimeError ''AZURE_OPENAI_ENDPOINT and AZURE_OPENAI_API_KEY must be set in .env''),
         \<lparr>stdin = [''exit''], stdout = [], res_log = []\<rparr>)"
  by (subst main_config_required) (simp add: getenv_def load_dotenv_def py_truthy_def)

text \<open>
  Claim C16: agents-in-workflow/main.py raises the \<open>RuntimeError\<close> of
  line 42 exactly when the endpoint is unset or empty once \<open>.env\<close> is
  loaded, after printing the configuration line of line 39; unlike
  src/main.py it raises it whether or not an API key is set.
\<close>

theorem main_aiw_config_required:
  "main_aiw env dotenv svc enter w =
     Some (Crashed (RuntimeError ''AZURE_OPENAI_ENDPOINT must be set in .env''),
           w\<lparr>stdout := stdout w @ fst (snd (create_workflow_aiw env dotenv))\<rparr>) \<longleftrightarrow>
   \<not> py_truthy (getenv (load_dotenv env dotenv) ''AZURE_OPENAI_ENDPOINT'')"
  by (simp add: main_aiw_unfold create_workflow_aiw_result build_app_repo dispatch_not_crashed)

theorem main_aiw_config_required_witness:
  "main_aiw [''AZURE_OPENAI_API_KEY'' \<mapsto> ''k1''] [''AZURE_OPENAI_ENDPOINT'' \<mapsto> []]
     \<lparr>infer = \<lambda>a ms. Inr (FinalReply JNull), call_tool = \<lambda>t op args. Inr JNull\<rparr> (\<lambda>r. None)
     \<lparr>stdin = [''exit''], stdout = [], res_log = []\<rparr> =
   Some (Crashed (RuntimeError ''AZURE_OPENAI_ENDPOINT must be set in .env''),
         \<lparr>stdin = [''exit''], stdout = ''Loaded environment variables: ENDPOINT=, DEPLOYMENT=None, API_KEY=***\<newline>'',
          res_log = []\<rparr>)"
proof -
  have "main_aiw [''AZURE_OPENAI_API_KEY'' \<mapsto> ''k1''] [''AZURE_OPENAI_ENDPOINT'' \<mapsto> []]
     \<lparr>infer = \<lambda>a ms. Inr (FinalReply JNull), call_tool = \<lambda>t op args. Inr JNull\<rparr> (\<lambda>r. None)
     \<lparr>stdin = [''exit''], stdout = [], res_log = []\<rparr> =
   Some (Crashed (RuntimeError ''AZURE_OPENAI_ENDPOINT must be set in .env''),
         \<lparr>stdin = [''exit''], stdout = [], res_log = []\<rparr>\<lparr>stdout := stdout \<lparr>stdin = [''exit''], stdout = [], res_log = []\<rparr> @
            fst (snd (create_workflow_aiw [''AZURE_OPENAI_API_KEY'' \<mapsto> ''k1''] [''AZURE_OPENAI_ENDPOINT'' \<mapsto> []]))\<rparr>)"
    by (subst main_aiw_config_required) (simp add: getenv_def load_dotenv_def py_truthy_def)
  then show ?thesis
    by (simp add: create_workflow_aiw_def getenv_def load_dotenv_def py_truthy_def py_fmt_opt_def)
qed

text \<open>
  Claim C17: with the configuration present, src/main.py builds the
  repository's workflow over a client whose endpoint, deployment and API
  key are the values after \<open>.env\<close> is loaded over the environment, so a
  key set in \<open>.env\<close> wins over the process environment's.
\<close>

theorem create_workflow_client:
  assumes "load_dotenv env dotenv ''AZURE_OPENAI_ENDPOINT'' = Some endpoint" and "endpoint \<noteq> []"
    and "load_dotenv env dotenv ''AZURE_OPENAI_API_KEY'' = Some api_key" and "api_key \<noteq> []"
  shows "snd (create_workflow env dotenv) =
           (let cc = \<lparr>cc_endpoint = endpoint,
                      cc_deployment_name = load_dotenv env dotenv ''AZURE_OPENAI_RESPONSES_DEPLOYMENT_NAME'',
                      cc_credential = ApiKey api_key\<rparr>
            in Inr (chain_shape (map executor_of (repo_agents cc)), create_rewrite_agent cc,
                    fst (create_docs_agent cc), create_summarize_agent cc, snd (create_docs_agent cc)))"
  using assms by (simp add: create_workflow_result build_app_repo getenv_def py_truthy_def Let_def)

theorem create_workflow_client_witness:
  "snd (create_workflow
          [''AZURE_OPENAI_ENDPOINT'' \<mapsto> ''https://stale.openai.azure.com'']
          [''AZURE_OPENAI_ENDPOINT'' \<mapsto> ''https://docs.openai.azure.com'',
           ''AZURE_OPENAI_API_KEY'' \<mapsto> ''k1'']) =
     Inr (chain_shape (map executor_of (repo_agents
            \<lparr>cc_endpoint = ''https://docs.openai.azure.com'', cc_deployment_name = None,
             cc_credential = ApiKey ''k1''\<rparr>)),
          create_rewrite_agent \<lparr>cc_endpoint = ''https://docs.openai.azure.com'',
             cc_deployment_name = None, cc_credential = ApiKey ''k1''\<rparr>,
          fst (create_docs_agent \<lparr>cc_endpoint = ''https://docs.openai.azure.com'',
             cc_deployment_name = None, cc_credential = ApiKey ''k1''\<rparr>),
          create_summarize_agent \<lparr>cc_endpoint = ''https://docs.openai.azure.com'',
             cc_deployment_name = None, cc_credential = ApiKey ''k1''\<rparr>,
          snd (create_docs_agent \<lparr>cc_endpoint = ''https://docs.openai.azure.com'',
             cc_deployment_name = None, cc_credential = ApiKey ''k1''\<rparr>))"
  using create_workflow_client
    [of "[''AZURE_OPENAI_ENDPOINT'' \<mapsto> ''https://stale.openai.azure.com'']"
        "[''AZURE_OPENAI_ENDPOINT'' \<mapsto> ''https://docs.openai.azure.com'', ''AZURE_OPENAI_API_KEY'' \<mapsto> ''k1'']"
        "''https://docs.openai.azure.com''" "''k1''"]
  by (simp add: load_dotenv_def Let_def)

text \<open>
  Claim C15: the mode is read from the process environment only: a
  \<open>MODE\<close> set in \<open>.env\<close>, or its absence there, changes nothing in either
  entry point, because \<open>MODE\<close> is read at import, before
  \<open>create_workflow\<close> loads the file.
\<close>

theorem main_mode_ignores_dotenv:
  "main env (dotenv(''MODE'' := m)) svc enter w = main env dotenv svc enter w \<and>
   main_aiw env (dotenv(''MODE'' := m)) svc enter w = main_aiw env dotenv svc enter w"
proof -
  have k: "''MODE'' \<notin> {''AZURE_OPENAI_ENDPOINT'', ''AZURE_OPENAI_API_KEY'', ''AZURE_OPENAI_RESPONSES_DEPLOYMENT_NAME''}"
    by simp
  show ?thesis
    unfolding main_unfold main_aiw_unfold create_workflow_upd_other [OF k] by simp
qed

text \<open>
  Claim C21: a \<open>MODE\<close> that is none of \<open>hosted_agent\<close>, \<open>cli\<close> and
  \<open>devui\<close> makes a fully configured src/main.py build the workflow and
  then return without printing, serving or reading anything.
\<close>

theorem main_unknown_mode:
  assumes "env ''MODE'' = Some m" and "m \<notin> {''hosted_agent'', ''cli'', ''devui''}"
    and "py_truthy (getenv (load_dotenv env dotenv) ''AZURE_OPENAI_ENDPOINT'')"
    and "py_truthy (getenv (load_dotenv env dotenv) ''AZURE_OPENAI_API_KEY'')"
  shows "main env dotenv svc enter w = Some (NoModeMatched, w)"
  using assms
  by (simp add: main_unfold create_workflow_result build_app_repo dispatch_def getenv_default_def)

theorem main_unknown_mode_witness:
  "main [''MODE'' \<mapsto> ''CLI'']
     [''AZURE_OPENAI_ENDPOINT'' \<mapsto> ''https://docs.openai.azure.com'', ''AZURE_OPENAI_API_KEY'' \<mapsto> ''k1'']
     \<lparr>infer = \<lambda>a ms. Inr (FinalReply JNull), call_tool = \<lambda>t op args. Inr JNull\<rparr> (\<lambda>r. None)
     \<lparr>stdin = [''What is Azure Blob Storage?''], stdout = [], res_log = []\<rparr> =
   Some (NoModeMatched, \<lparr>stdin = [''What is Azure Blob Storage?''], stdout = [], res_log = []\<rparr>)"
  by (rule main_unknown_mode [where m = "''CLI''"])
     (simp_all add: getenv_def load_dotenv_def py_truthy_def)

text \<open>
  Claim C27: with the configuration set, src/main.py in \<open>hosted_agent\<close>
  mode hands the repository's workflow to the hosting adapter, and in
  \<open>devui\<close> mode hands the workflow and the three agents, in that order,
  to the Dev UI server; each prints its banner and neither reads input nor
  enters a resource.
\<close>

theorem main_server_modes:
  assumes ep: "load_dotenv env dotenv ''AZURE_OPENAI_ENDPOINT'' = Some endpoint" "endpoint \<noteq> []"
    and key: "load_dotenv env dotenv ''AZURE_OPENAI_API_KEY'' = Some api_key" "api_key \<noteq> []"
    and cc: "cc = \<lparr>cc_endpoint = endpoint,
                 cc_deployment_name = load_dotenv env dotenv ''AZURE_OPENAI_RESPONSES_DEPLOYMENT_NAME'',
                 cc_credential = ApiKey api_key\<rparr>"
  shows "(getenv_default env ''MODE'' ''cli'' = ''hosted_agent'' \<longrightarrow>
            main env dotenv svc enter w =
              Some (ServedHosted (chain_shape (map executor_of (repo_agents cc))),
                    w\<lparr>stdout := stdout w @ hosted_banner\<rparr>)) \<and>
         (getenv_default env ''MODE'' ''cli'' = ''devui'' \<longrightarrow>
            main env dotenv svc enter w =
              Some (ServedDevUI (chain_shape (map executor_of (repo_agents cc)))
                      [create_rewrite_agent cc, fst (create_docs_agent cc), create_summarize_agent cc],
                    w\<lparr>stdout := stdout w @ devui_banner\<rparr>))"
  unfolding main_unfold create_workflow_configured [OF ep key] cc
  by (simp add: dispatch_def Let_def)

theorem main_server_modes_witness:
  "main [''MODE'' \<mapsto> ''hosted_agent'']
     [''AZURE_OPENAI_ENDPOINT'' \<mapsto> ''https://docs.openai.azure.com'', ''AZURE_OPENAI_API_KEY'' \<mapsto> ''k1'']
     \<lparr>infer = \<lambda>a ms. Inr (FinalReply JNull), call_tool = \<lambda>t op args. Inr JNull\<rparr> (\<lambda>r. None)
     \<lparr>stdin = [''exit''], stdout = [], res_log = []\<rparr> =
   Some (ServedHosted (chain_shape (map executor_of (repo_agents
           \<lparr>cc_endpoint = ''https://docs.openai.azure.com'', cc_deployment_name = None, cc_credential = ApiKey ''k1''\<rparr>))),
         \<lparr>stdin = [''exit''], stdout = hosted_banner, res_log = []\<rparr>)"
proof -
  have "getenv_default [''MODE'' \<mapsto> ''hosted_agent''] ''MODE'' ''cli'' = ''hosted_agent''"
    by (simp add: getenv_default_def)
  with main_server_modes
    [where env = "[''MODE'' \<mapsto> ''hosted_agent'']"
       and dotenv = "[''AZURE_OPENAI_ENDPOINT'' \<mapsto> ''https://docs.openai.azure.com'', ''AZURE_OPENAI_API_KEY'' \<mapsto> ''k1'']"
       and endpoint = "''https://docs.openai.azure.com''" and api_key = "''k1''"
       and cc = "\<lparr>cc_endpoint = ''https://docs.openai.azure.com'', cc_deployment_name = None, cc_credential = ApiKey ''k1''\<rparr>"
       and svc = "\<lparr>infer = \<lambda>a ms. Inr (FinalReply JNull), call_tool = \<lambda>t op args. Inr JNull\<rparr>"
       and enter = "\<lambda>r. None" and w = "\<lparr>stdin = [''exit''], stdout = [], res_log = []\<rparr>"]
  show ?thesis by (simp add: load_dotenv_def)
qed

text \<open>
  Claim C29: the configuration line agents-in-workflow/main.py prints at
  line 39 never shows the API key: any two non-empty keys in \<open>.env\<close>
  print the same line, which shows \<open>***\<close> in place of the key.
\<close>

theorem create_workflow_aiw_key_masked:
  assumes "k1 \<noteq> []" and "k2 \<noteq> []"
  shows "fst (snd (create_workflow_aiw env (dotenv(''AZURE_OPENAI_API_KEY'' \<mapsto> k1)))) =
         fst (snd (create_workflow_aiw env (dotenv(''AZURE_OPENAI_API_KEY'' \<mapsto> k2))))"
  using assms by (simp add: create_workflow_aiw_def Let_def getenv_def load_dotenv_def py_truthy_def)

theorem create_workflow_aiw_key_masked_witness:
  "fst (snd (create_workflow_aiw Map.empty
      [''AZURE_OPENAI_ENDPOINT'' \<mapsto> ''https://docs.openai.azure.com'', ''AZURE_OPENAI_API_KEY'' \<mapsto> ''secret-1''])) =
   fst (snd (create_workflow_aiw Map.empty
      [''AZURE_OPENAI_ENDPOINT'' \<mapsto> ''https://docs.openai.azure.com'', ''AZURE_OPENAI_API_KEY'' \<mapsto> ''secret-2''])) \<and>
   fst (snd (create_workflow_aiw Map.empty
      [''AZURE_OPENAI_ENDPOINT'' \<mapsto> ''https://docs.openai.azure.com'', ''AZURE_OPENAI_API_KEY'' \<mapsto> ''secret-1''])) =
   ''Loaded environment variables: ENDPOINT=https://docs.openai.azure.com, DEPLOYMENT=None, API_KEY=***\<newline>''"
proof
  show "fst (snd (create_workflow_aiw Map.empty
      [''AZURE_OPENAI_ENDPOINT'' \<mapsto> ''https://docs.openai.azure.com'', ''AZURE_OPENAI_API_KEY'' \<mapsto> ''secret-1''])) =
   fst (snd (create_workflow_aiw Map.empty
      [''AZURE_OPENAI_ENDPOINT'' \<mapsto> ''https://docs.openai.azure.com'', ''AZURE_OPENAI_API_KEY'' \<mapsto> ''secret-2'']))"
    by (rule create_workflow_aiw_key_masked [where dotenv = "[''AZURE_OPENAI_ENDPOINT'' \<mapsto> ''https://docs.openai.azure.com'']"]) simp_all
qed (simp add: create_workflow_aiw_def getenv_def load_dotenv_def py_truthy_def py_fmt_opt_def)

end
