(* ===== verification/Repl_Steps.thy ===== *)
theory Repl_Steps
  imports Repl
begin

text \<open>
  A small-step semantics of the REPL of src/main.py (lines 60 to 70): a
  state is running, with the input lines left and the output so far, or
  stopped, with how the loop ended. Each step reads exactly one line and
  runs at most one turn of the workflow to completion, so turns are
  serialised as spec section 5 requires. The loop \<open>repl_loop\<close> of theory
  Repl is proved equal to the reflexive transitive closure of the step
  relation, and the session is proved to reach its end.
\<close>

datatype repl_state =
    Running "string list" string
  | Stopped repl_exit "string list" string

inductive repl_step :: "stream_fn \<Rightarrow> repl_state \<Rightarrow> repl_state \<Rightarrow> bool" for f where
  eof: "repl_step f (Running [] out) (Stopped (Raised EOFError) [] (out @ ''You: ''))"
| blank: "py_strip l = [] \<Longrightarrow> repl_step f (Running (l # ls) out) (Running ls (out @ ''You: ''))"
| quit: "py_strip l \<noteq> [] \<Longrightarrow> py_lower (py_strip l) \<in> {''exit'', ''quit''} \<Longrightarrow>
         repl_step f (Running (l # ls) out) (Stopped Finished ls (out @ ''You: Goodbye!\<newline>''))"
| turn: "py_strip l \<noteq> [] \<Longrightarrow> py_lower (py_strip l) \<notin> {''exit'', ''quit''} \<Longrightarrow>
         f (JStr (py_strip l)) = Some (evs, None) \<Longrightarrow>
         repl_step f (Running (l # ls) out) (Running ls (out @ ''You: '' @ print_events evs))"
| raise: "py_strip l \<noteq> [] \<Longrightarrow> py_lower (py_strip l) \<notin> {''exit'', ''quit''} \<Longrightarrow>
         f (JStr (py_strip l)) = Some (evs, Some e) \<Longrightarrow>
         repl_step f (Running (l # ls) out) (Stopped (Raised e) ls (out @ ''You: '' @ print_events evs))"

inductive_cases repl_step_StoppedE [elim!]: "repl_step f (Stopped ex rest out) s"

section \<open>Lemmas\<close>

lemma repl_loop_steps:
  "repl_loop f ls out = Some (ex, rest, out') \<Longrightarrow>
   (repl_step f)\<^sup>*\<^sup>* (Running ls out) (Stopped ex rest out')"
proof (induction ls arbitrary: out)
  case Nil
  then show ?case by (auto intro: repl_step.eof)
next
  case (Cons l ls)
  consider (blank) "py_strip l = []"
    | (quit) "py_strip l \<noteq> []" "py_lower (py_strip l) \<in> {''exit'', ''quit''}"
    | (turn) evs err where "py_strip l \<noteq> []" "py_lower (py_strip l) \<notin> {''exit'', ''quit''}"
        "f (JStr (py_strip l)) = Some (evs, err)"
    using Cons.prems by (cases "f (JStr (py_strip l))") (auto simp: Let_def split: if_splits)
  then show ?case
  proof cases
    case blank
    with Cons.prems have "repl_loop f ls (out @ ''You: '') = Some (ex, rest, out')" by simp
    from repl_step.blank [OF blank] Cons.IH [OF this] show ?thesis
      by (rule converse_rtranclp_into_rtranclp)
  next
    case quit
    with Cons.prems have "ex = Finished" "rest = ls" "out' = out @ ''You: Goodbye!\<newline>''"
      by (simp_all add: repl_loop_exit)
    with repl_step.quit [OF quit, of f ls out] show ?thesis by simp
  next
    case (turn evs err)
    note step = repl_loop_turn [where f = f and l = l, OF turn]
    show ?thesis
    proof (cases err)
      case None
      with Cons.prems step have "repl_loop f ls (out @ ''You: '' @ print_events evs) = Some (ex, rest, out')"
        by simp
      from repl_step.turn [OF turn(1,2), of f evs ls out] turn(3) None Cons.IH [OF this] show ?thesis
        by (simp add: converse_rtranclp_into_rtranclp)
    next
      case (Some e)
      with Cons.prems step have "ex = Raised e" "rest = ls" "out' = out @ ''You: '' @ print_events evs"
        by simp_all
      with repl_step.raise [OF turn(1,2), of f evs e ls out] turn(3) Some show ?thesis by simp
    qed
  qed
qed

lemma repl_steps_loop:
  assumes "(repl_step f)\<^sup>*\<^sup>* s (Stopped ex rest out')"
  shows "case s of Running ls out \<Rightarrow> repl_loop f ls out = Some (ex, rest, out')
                 | Stopped e r s2 \<Rightarrow> (e, r, s2) = (ex, rest, out')"
  using assms
proof (induction rule: converse_rtranclp_induct)
  case base
  then show ?case by simp
next
  case (step s s')
  from step.hyps(1) show ?case
  proof (cases rule: repl_step.cases)
    case (eof out)
    with step.IH show ?thesis by simp
  next
    case (blank l ls out)
    with step.IH show ?thesis by simp
  next
    case (quit l ls out)
    with step.IH show ?thesis by (simp add: repl_loop_exit)
  next
    case (turn l evs ls out)
    have "repl_loop f (l # ls) out = repl_loop f ls (out @ ''You: '' @ print_events evs)"
      using repl_loop_turn [where f = f and l = l, OF turn(3-5)] by (simp only: option.case)
    with turn(1,2) step.IH show ?thesis by (simp del: repl_loop.simps)
  next
    case (raise l evs e ls out)
    have "repl_loop f (l # ls) out = Some (Raised e, ls, out @ ''You: '' @ print_events evs)"
      using repl_loop_turn [where f = f and l = l, OF raise(3-5)] by (simp only: option.case)
    with raise(1,2) step.IH show ?thesis by (simp del: repl_loop.simps)
  qed
qed

text \<open>The loop of \<open>repl()\<close> is exactly the closure of the step relation.\<close>

lemma repl_loop_iff_steps:
  "repl_loop f ls out = Some (ex, rest, out') \<longleftrightarrow>
   (repl_step f)\<^sup>*\<^sup>* (Running ls out) (Stopped ex rest out')"
proof
  assume "repl_loop f ls out = Some (ex, rest, out')"
  then show "(repl_step f)\<^sup>*\<^sup>* (Running ls out) (Stopped ex rest out')" by (rule repl_loop_steps)
next
  assume "(repl_step f)\<^sup>*\<^sup>* (Running ls out) (Stopped ex rest out')"
  from repl_steps_loop [OF this] show "repl_loop f ls out = Some (ex, rest, out')" by simp
qed

section \<open>Properties\<close>

text \<open>
  Claim C20: when every turn's run ends normally, the session ends: normally
  (\<open>Goodbye!\<close>) if and only if one of the input lines is an exit line,
  otherwise with the \<open>EOFError\<close> of the end of input.
\<close>

theorem repl_reaches_exit:
  assumes ok: "\<forall>u. \<exists>evs. f u = Some (evs, None)"
  shows "\<exists>ex rest out'. repl_loop f ls out = Some (ex, rest, out') \<and>
           (ex = Finished \<longleftrightarrow> (\<exists>l\<in>set ls. py_lower (py_strip l) \<in> {''exit'', ''quit''}))"
proof (induction ls arbitrary: out)
  case Nil
  then show ?case by simp
next
  case (Cons l ls)
  consider (blank) "py_strip l = []"
    | (quit) "py_strip l \<noteq> []" "py_lower (py_strip l) \<in> {''exit'', ''quit''}"
    | (turn) "py_strip l \<noteq> []" "py_lower (py_strip l) \<notin> {''exit'', ''quit''}"
    by blast
  then show ?case
  proof cases
    case blank
    with Cons.IH [of "out @ ''You: ''"] show ?thesis by simp
  next
    case quit
    then show ?thesis by (simp add: repl_loop_exit)
  next
    case turn
    from ok obtain evs where run: "f (JStr (py_strip l)) = Some (evs, None)" by blast
    have "repl_loop f (l # ls) out = repl_loop f ls (out @ ''You: '' @ print_events evs)"
      using repl_loop_turn [where f = f and l = l, OF turn run] by (simp only: option.case)
    with turn Cons.IH [of "out @ ''You: '' @ print_events evs"] show ?thesis
      by (simp del: repl_loop.simps)
  qed
qed

theorem repl_reaches_exit_witness:
  "\<exists>ex rest out'. repl_loop (\<lambda>u. Some ([], None)) [''hello'', '' QUIT'', ''never read''] [] =
       Some (ex, rest, out') \<and>
     (ex = Finished \<longleftrightarrow>
        (\<exists>l\<in>set [''hello'', '' QUIT'', ''never read'']. py_lower (py_strip l) \<in> {''exit'', ''quit''}))"
  by (rule repl_reaches_exit) simp

end
