(* ===== verification/Spec2Isabelle.thy ===== *)
theory Spec2Isabelle
  imports App Repl_Steps
begin

text \<open>
  A verification development of the docs-agent repository: three
  LLM-backed agents (rewrite, Microsoft documentation lookup, summarize)
  chained into a fixed workflow, served by an interactive REPL, a Dev UI or
  a hosted-agent endpoint. The theories, in import order:

  \<^item> Prelude: the exceptions the code raises or propagates (\<open>py_error\<close>), the
    result type \<open>'a result = py_error + 'a\<close> (\<open>Inl\<close> an exception) with its
    bind \<open>res_bind\<close>, and shared lemmas on \<open>res_bind\<close> and \<open>map_of\<close>.
  \<^item> Workflow: the agent_framework engine the code drives, modelled from spec
    sections 4.2 and 4.3 since it is library code: \<open>WorkflowBuilder\<close>
    (\<open>register\<close>, \<open>add_agent\<close>, \<open>add_edge\<close>, \<open>set_start_executor\<close>,
    \<open>build\<close>), the chain builder \<open>build_chain\<close> and its shape
    \<open>chain_shape\<close>, and \<open>Workflow.run_stream\<close> as the walk \<open>walk\<close>, a
    \<open>partial_function (option)\<close> (\<open>None\<close>: a run that never ends), with
    the event stream it yields. \<open>patched_run_stream\<close> is the monkey patch of
    src/src/agents-in-workflow/main.py. The reference semantics \<open>pipeline\<close>
    (apply the agents in turn, stop at the first failure) is the
    specification; \<open>walk_chain\<close> proves the walk refines it.
  \<^item> Responses: \<open>DocsResponse\<close> (src/models/responses.py) as a record, JSON
    values, pydantic validation \<open>validate_docs_response\<close> and
    \<open>model_dump\<close>, and \<open>json_text\<close>, the text a message prints as.
  \<^item> Agents: \<open>create_rewrite_agent\<close>, \<open>create_docs_agent\<close> (with its
    \<open>MCPStreamableHTTPTool\<close>) and \<open>create_summarize_agent\<close> from the source,
    with their instructions, names, tools and response format; a run of a
    \<open>ChatAgent\<close> (spec section 4.1) is the tool loop \<open>agent_loop\<close>, a
    \<open>partial_function (option)\<close> over opaque services (\<open>infer\<close>, the
    inference endpoint; \<open>call_tool\<close>, the MCP server).
  \<^item> Documentation: \<open>create_documentation_workflow\<close>
    (workflows/documentation.py), the builder calls of the source in their
    order, and the runs of the repository's workflow.
  \<^item> Py_Builtins: \<open>str.strip\<close>, \<open>str.lower\<close>, truthiness of an optional
    string and \<open>os.getenv\<close> on the code points below 256, with the
    characterisation of \<open>strip\<close> (only white space at both ends is removed).
  \<^item> Repl: \<open>repl()\<close> of src/main.py (lines 58 to 72, identical in
    agents-in-workflow/main.py): the world record (standard input as its
    remaining lines, standard output as a string, the log of resource
    entries and exits), the loop \<open>repl_loop\<close> and the scope \<open>repl\<close> of
    \<open>async with\<close>. Repl_Steps: the same loop as an inductive step relation
    \<open>repl_step\<close>, one input line per step.
  \<^item> App: both entry points, \<open>create_workflow\<close> and \<open>main\<close> (src/main.py)
    and \<open>create_workflow_aiw\<close> and \<open>main_aiw\<close>
    (src/src/agents-in-workflow/main.py): \<open>MODE\<close> read at import,
    \<open>load_dotenv(override=True)\<close> as the map update \<open>env ++ dotenv\<close>, the
    configuration checks, the client, and the mode dispatch \<open>dispatch\<close>.
  \<^item> This theory: the properties of a whole session of either entry
    point, which span all of the above.

  What the lemmas show. Documentation: the workflow builds to the chain
  rewrite, docs, summarize with summarize the only output; a run refines the
  pipeline, emits exactly the summarize output, stops at the docs agent's
  failure, and ends whenever the docs agent's tool loop does; every run is
  bounded by the three nodes (each agent invoked at most once, in order, at
  most seven events); for any three agents with different names the builder
  calls give the linear pipeline of spec section 3, and two different
  agents under one name make them raise the duplicate-id \<open>ValueError\<close>
  naming that name. Agents: the
  docs agent can call only \<open>microsoft_docs_search\<close>, any other tool fails
  with \<open>ToolNotPermitted\<close>, its output validates as a \<open>DocsResponse\<close> or
  the run fails with \<open>SchemaViolation\<close>; the other two agents answer in one
  round. Responses: validation is characterised exactly and ignores extra
  keys. Repl: resources are exited once each, in reverse order, on every
  way out; blank lines are skipped, a line that strips and lowers to exit
  or quit ends the session with \<open>Goodbye!\<close>, and end of input raises
  \<open>EOFError\<close>. Repl_Steps: the loop is exactly the closure of the step
  relation (a lemma), and with successful turns it ends, normally exactly
  when an exit line is typed. App: the configuration checks of
  both entry points (the exact \<open>RuntimeError\<close> of each and when it is
  raised), the client arguments built from the loaded configuration, the
  mode taken from the process environment only, an unknown mode doing
  nothing, what the hosted-agent and Dev UI modes hand to their servers,
  and the API key never shown by the configuration line of
  agents-in-workflow. Here: spec scenarios A (through both entry points,
  sharing the lemma \<open>repo_session_answers\<close> on the REPL) and D end to
  end, from the environment to the printed output and the resource log.

  Bounds and fuel. No loop of the code has a bound: the REPL reads one line
  per iteration and is structural recursion on the input lines; the agent
  tool loop and the workflow walk are \<open>partial_function (option)\<close>, so a
  model that asks for tools forever, or a cyclic workflow, is the value
  \<open>None\<close>, and the termination lemmas prove \<open>Some\<close> for the repository's
  agents and chain.

  The program does no fixed-width arithmetic (Python integers, strings and
  lists only), so no property concerns overflow or word bounds.

  Not modelled. The inference service and the MCP server are opaque
  services (record \<open>services\<close>), as the spec treats them. The constructor
  \<open>AzureOpenAIResponsesClient(...)\<close> is library code: \<open>chat_client\<close>
  records the arguments the code passes and cannot fail, so the
  constructor's own checks (a deployment name and an endpoint are
  required) and its fallback to the \<open>AZURE_OPENAI_*\<close> variables of
  \<open>os.environ\<close> (by which agents-in-workflow may still pick up the API
  key) are not modelled; the session properties that leave the deployment
  unset describe the code on the assumption that the constructor
  succeeds, and the agents-in-workflow scenario requires the deployment. The Dev UI
  (\<open>agent_framework_devui.serve\<close>) and the hosted-agent server
  (\<open>from_agent_framework(...).run()\<close>) are library servers: \<open>main\<close> records
  what it hands them (\<open>ServedDevUI\<close>, \<open>ServedHosted\<close>) and nothing of
  their behaviour. Characters are the code points below 256, so the
  Unicode cases of \<open>strip\<close> and \<open>lower\<close> beyond Latin-1 are not covered.
  \<open>asyncio\<close> scheduling is not modelled: one turn runs to completion before
  the next line is read, which is what the sequential model expresses.
\<close>

section \<open>Lemmas shared by the end-to-end properties\<close>

lemma cli_turn_stream:
  assumes "run_stream (doc_respond svc) w0 v = Some r"
  shows "cli_stream svc w0 v = Some r"
  using assms by (simp add: cli_stream_def)

lemma exit_line: "py_lower (py_strip ''exit'') \<in> {''exit'', ''quit''}"
  by (simp add: py_str_eval)

lemma print_events_prefix_silent [simp]:
  "print_events [ExecutorInvokedEvent a, ExecutorCompletedEvent a, ExecutorInvokedEvent b] = []"
  by simp

text \<open>What evaluates a run of the three agents against concrete services.\<close>

lemmas agent_run_eval = doc_respond_def agent_run_final agent_run_infer_error repo_agent_names
  finish_reply_def docs_agent_fields validate_docs_response_def dump_docs_response_def json_field_def
  create_rewrite_agent_def create_summarize_agent_def

text \<open>A question then \<open>exit\<close>, on the REPL over the repository's workflow.\<close>

lemma repo_session_answers:
  assumes enter: "\<forall>r. enter r = None"
    and input: "stdin w = [question, ''exit'']"
    and q: "py_strip question \<noteq> []" "py_lower (py_strip question) \<notin> {''exit'', ''quit''}"
    and run: "doc_respond svc (create_rewrite_agent cc) (JStr (py_strip question)) = Some (Inr query)"
      "doc_respond svc (fst (create_docs_agent cc)) query = Some (Inr answer_json)"
      "doc_respond svc (create_summarize_agent cc) answer_json = Some (Inr summary)"
  shows "repl enter (cli_stream svc (chain_shape (map executor_of (repo_agents cc)))) rs w =
           Some (Finished,
                 w\<lparr>stdin := [],
                   stdout := stdout w @ ''You: '' @ ''Agent: '' @ json_text summary @
                             ''\<newline>\<newline>'' @ ''You: Goodbye!\<newline>'',
                   res_log := res_log w @ map Acquire rs @ map Release (rev rs)\<rparr>)"
proof -
  let ?f = "cli_stream svc (chain_shape (map executor_of (repo_agents cc)))"
  from repo_run_success [OF run] obtain evs where
    evs: "run_stream (doc_respond svc) (chain_shape (map executor_of (repo_agents cc)))
            (JStr (py_strip question)) = Some (evs, None)" "output_data evs = [summary]"
    by blast
  have turn: "repl_loop ?f (question # [''exit'']) out = repl_loop ?f [''exit''] (out @ ''You: '' @ print_events evs)"
    for out
    by (rule repl_turn_continues [where f = ?f, OF q cli_turn_stream [OF evs(1)]])
  have printed: "print_events evs = ''Agent: '' @ json_text summary @ ''\<newline>\<newline>''"
    by (simp add: print_events_output_data evs(2))
  show ?thesis
    using enter
    by (simp add: repl_entered input turn printed repl_loop_exit [OF exit_line] del: repl_loop.simps)
qed

section \<open>End-to-end properties\<close>

text \<open>
  Claim C2: spec scenario A through src/main.py: with the configuration
  set and \<open>MODE\<close> unset or \<open>cli\<close>, a session that asks one question and
  then types \<open>exit\<close> prints the banner, the prompt, the summarize agent's
  answer as \<open>Agent: ...\<close> followed by a blank line, the prompt again and
  \<open>Goodbye!\<close>, and ends normally with the tool and the three agents
  entered and exited in reverse order; the rewrite and docs outputs are
  never printed.
\<close>

theorem cli_session_answers:
  assumes mode: "getenv_default env ''MODE'' ''cli'' = ''cli''"
    and ep: "load_dotenv env dotenv ''AZURE_OPENAI_ENDPOINT'' = Some endpoint" "endpoint \<noteq> []"
    and key: "load_dotenv env dotenv ''AZURE_OPENAI_API_KEY'' = Some api_key" "api_key \<noteq> []"
    and cc: "cc = \<lparr>cc_endpoint = endpoint,
                 cc_deployment_name = load_dotenv env dotenv ''AZURE_OPENAI_RESPONSES_DEPLOYMENT_NAME'',
                 cc_credential = ApiKey api_key\<rparr>"
    and enter: "\<forall>r. enter r = None"
    and input: "stdin w = [question, ''exit'']"
    and q: "py_strip question \<noteq> []" "py_lower (py_strip question) \<notin> {''exit'', ''quit''}"
    and run: "doc_respond svc (create_rewrite_agent cc) (JStr (py_strip question)) = Some (Inr query)"
      "doc_respond svc (fst (create_docs_agent cc)) query = Some (Inr answer_json)"
      "doc_respond svc (create_summarize_agent cc) answer_json = Some (Inr summary)"
  shows "main env dotenv svc enter w =
           Some (CliEnded Finished,
                 w\<lparr>stdin := [],
                   stdout := stdout w @ cli_banner @ ''You: '' @ ''Agent: '' @ json_text summary @
                             ''\<newline>\<newline>'' @ ''You: Goodbye!\<newline>'',
                   res_log := res_log w @ map Acquire [''Microsoft Learn MCP'', ''rewrite-agent'', ''microsoft-docs-agent'', ''summarize-agent''] @
                              map Release (rev [''Microsoft Learn MCP'', ''rewrite-agent'', ''microsoft-docs-agent'', ''summarize-agent''])\<rparr>)"
  using repo_session_answers [OF enter _ q run, where w = "w\<lparr>stdout := stdout w @ cli_banner\<rparr>"] input
  by (simp add: main_cli [OF mode ep key, folded cc])

theorem cli_session_answers_witness:
  "main Map.empty [''AZURE_OPENAI_ENDPOINT'' \<mapsto> ''https://docs.openai.azure.com'', ''AZURE_OPENAI_API_KEY'' \<mapsto> ''k1'']
     \<lparr>infer = \<lambda>a ms. Inr (FinalReply
            (if agent_name a = ''microsoft-docs-agent''
             then dump_docs_response \<lparr>answer = ''Object storage for unstructured data.'',
                    sources = [''https://learn.microsoft.com/azure/storage/blobs/'']\<rparr>
             else JStr (''reply of '' @ agent_name a))),
         call_tool = \<lambda>t op args. Inr JNull\<rparr>
     (\<lambda>r. None) \<lparr>stdin = [''wut is Azure Blob torage'', ''exit''], stdout = [], res_log = []\<rparr> =
   Some (CliEnded Finished,
     \<lparr>stdin = [],
      stdout = cli_banner @ ''You: Agent: reply of summarize-agent\<newline>\<newline>You: Goodbye!\<newline>'',
      res_log = [Acquire ''Microsoft Learn MCP'', Acquire ''rewrite-agent'', Acquire ''microsoft-docs-agent'',
                 Acquire ''summarize-agent'', Release ''summarize-agent'', Release ''microsoft-docs-agent'',
                 Release ''rewrite-agent'', Release ''Microsoft Learn MCP'']\<rparr>)"
proof -
  have "main Map.empty [''AZURE_OPENAI_ENDPOINT'' \<mapsto> ''https://docs.openai.azure.com'', ''AZURE_OPENAI_API_KEY'' \<mapsto> ''k1'']
     \<lparr>infer = \<lambda>a ms. Inr (FinalReply
            (if agent_name a = ''microsoft-docs-agent''
             then dump_docs_response \<lparr>answer = ''Object storage for unstructured data.'',
                    sources = [''https://learn.microsoft.com/azure/storage/blobs/'']\<rparr>
             else JStr (''reply of '' @ agent_name a))),
         call_tool = \<lambda>t op args. Inr JNull\<rparr>
     (\<lambda>r. None) \<lparr>stdin = [''wut is Azure Blob torage'', ''exit''], stdout = [], res_log = []\<rparr> =
   Some (CliEnded Finished,
     \<lparr>stdin = [''wut is Azure Blob torage'', ''exit''], stdout = [], res_log = []\<rparr>\<lparr>stdin := [],
        stdout := stdout \<lparr>stdin = [''wut is Azure Blob torage'', ''exit''], stdout = [], res_log = []\<rparr> @ cli_banner @ ''You: '' @ ''Agent: '' @
                  json_text (JStr ''reply of summarize-agent'') @ ''\<newline>\<newline>'' @ ''You: Goodbye!\<newline>'',
        res_log := res_log \<lparr>stdin = [''wut is Azure Blob torage'', ''exit''], stdout = [], res_log = []\<rparr> @ map Acquire [''Microsoft Learn MCP'', ''rewrite-agent'', ''microsoft-docs-agent'', ''summarize-agent''] @ map Release (rev [''Microsoft Learn MCP'', ''rewrite-agent'', ''microsoft-docs-agent'', ''summarize-agent''])\<rparr>)"
    by (rule cli_session_answers
          [where endpoint = "''https://docs.openai.azure.com''" and api_key = "''k1''"
             and cc = "\<lparr>cc_endpoint = ''https://docs.openai.azure.com'', cc_deployment_name = None, cc_credential = ApiKey ''k1''\<rparr>"
             and question = "''wut is Azure Blob torage''" and query = "JStr ''reply of rewrite-agent''"
             and answer_json = "dump_docs_response \<lparr>answer = ''Object storage for unstructured data.'',
                    sources = [''https://learn.microsoft.com/azure/storage/blobs/'']\<rparr>"])
       (simp_all add: getenv_default_def load_dotenv_def py_str_eval agent_run_eval)
  then show ?thesis by (simp add: json_text_def)
qed

text \<open>
  Claim C3: spec scenario D through src/main.py: when the documentation
  agent fails on a question (an unreachable MCP server, a schema
  violation), nothing of the agents is printed and the exception leaves the
  REPL: the session ends with it after exiting every resource, and the
  lines typed after the question are never read. The spec (sections 7 and
  8, scenario D) has the loop report the error and prompt again.
\<close>

theorem cli_docs_failure_ends_session:
  assumes mode: "getenv_default env ''MODE'' ''cli'' = ''cli''"
    and ep: "load_dotenv env dotenv ''AZURE_OPENAI_ENDPOINT'' = Some endpoint" "endpoint \<noteq> []"
    and key: "load_dotenv env dotenv ''AZURE_OPENAI_API_KEY'' = Some api_key" "api_key \<noteq> []"
    and cc: "cc = \<lparr>cc_endpoint = endpoint,
                 cc_deployment_name = load_dotenv env dotenv ''AZURE_OPENAI_RESPONSES_DEPLOYMENT_NAME'',
                 cc_credential = ApiKey api_key\<rparr>"
    and enter: "\<forall>r. enter r = None"
    and input: "stdin w = question # later"
    and q: "py_strip question \<noteq> []" "py_lower (py_strip question) \<notin> {''exit'', ''quit''}"
    and run: "doc_respond svc (create_rewrite_agent cc) (JStr (py_strip question)) = Some (Inr query)"
      "doc_respond svc (fst (create_docs_agent cc)) query = Some (Inl e)"
  shows "main env dotenv svc enter w =
           Some (CliEnded (Raised e),
                 w\<lparr>stdin := later, stdout := stdout w @ cli_banner @ ''You: '',
                   res_log := res_log w @ map Acquire [''Microsoft Learn MCP'', ''rewrite-agent'', ''microsoft-docs-agent'', ''summarize-agent''] @
                              map Release (rev [''Microsoft Learn MCP'', ''rewrite-agent'', ''microsoft-docs-agent'', ''summarize-agent''])\<rparr>)"
proof -
  let ?f = "cli_stream svc (chain_shape (map executor_of (repo_agents cc)))"
  have turn: "repl_loop ?f (question # later) out =
        Some (Raised e, later, out @ ''You: '' @
          print_events [ExecutorInvokedEvent ''rewrite-agent'', ExecutorCompletedEvent ''rewrite-agent'',
                        ExecutorInvokedEvent ''microsoft-docs-agent''])" for out
    using repl_loop_turn [where f = ?f, OF q cli_turn_stream [OF repo_run_docs_failure [OF run]]]
    by simp
  show ?thesis
    using enter
    by (simp add: main_cli [OF mode ep key, folded cc] repl_entered input turn del: repl_loop.simps)
qed

theorem cli_docs_failure_ends_session_witness:
  "main Map.empty [''AZURE_OPENAI_ENDPOINT'' \<mapsto> ''https://docs.openai.azure.com'', ''AZURE_OPENAI_API_KEY'' \<mapsto> ''k1'']
     \<lparr>infer = \<lambda>a ms.
            (if agent_name a = ''microsoft-docs-agent''
             then Inl (UpstreamServiceError ''MCP server unreachable'')
             else Inr (FinalReply (JStr (''reply of '' @ agent_name a)))),
         call_tool = \<lambda>t op args. Inr JNull\<rparr>
     (\<lambda>r. None) \<lparr>stdin = [''wut is Azure Blob torage'', ''What is Azure Functions?'', ''exit''], stdout = [], res_log = []\<rparr> =
   Some (CliEnded (Raised (UpstreamServiceError ''MCP server unreachable'')),
     \<lparr>stdin = [''What is Azure Functions?'', ''exit''], stdout = cli_banner @ ''You: '',
      res_log = [Acquire ''Microsoft Learn MCP'', Acquire ''rewrite-agent'', Acquire ''microsoft-docs-agent'',
                 Acquire ''summarize-agent'', Release ''summarize-agent'', Release ''microsoft-docs-agent'',
                 Release ''rewrite-agent'', Release ''Microsoft Learn MCP'']\<rparr>)"
proof -
  have "main Map.empty [''AZURE_OPENAI_ENDPOINT'' \<mapsto> ''https://docs.openai.azure.com'', ''AZURE_OPENAI_API_KEY'' \<mapsto> ''k1'']
     \<lparr>infer = \<lambda>a ms.
            (if agent_name a = ''microsoft-docs-agent''
             then Inl (UpstreamServiceError ''MCP server unreachable'')
             else Inr (FinalReply (JStr (''reply of '' @ agent_name a)))),
         call_tool = \<lambda>t op args. Inr JNull\<rparr>
     (\<lambda>r. None) \<lparr>stdin = [''wut is Azure Blob torage'', ''What is Azure Functions?'', ''exit''], stdout = [], res_log = []\<rparr> =
   Some (CliEnded (Raised (UpstreamServiceError ''MCP server unreachable'')),
     \<lparr>stdin = [''wut is Azure Blob torage'', ''What is Azure Functions?'', ''exit''], stdout = [], res_log = []\<rparr>\<lparr>stdin := [''What is Azure Functions?'', ''exit''],
        stdout := stdout \<lparr>stdin = [''wut is Azure Blob torage'', ''What is Azure Functions?'', ''exit''], stdout = [], res_log = []\<rparr> @ cli_banner @ ''You: '',
        res_log := res_log \<lparr>stdin = [''wut is Azure Blob torage'', ''What is Azure Functions?'', ''exit''], stdout = [], res_log = []\<rparr> @ map Acquire [''Microsoft Learn MCP'', ''rewrite-agent'', ''microsoft-docs-agent'', ''summarize-agent''] @ map Release (rev [''Microsoft Learn MCP'', ''rewrite-agent'', ''microsoft-docs-agent'', ''summarize-agent''])\<rparr>)"
    by (rule cli_docs_failure_ends_session
          [where endpoint = "''https://docs.openai.azure.com''" and api_key = "''k1''"
             and cc = "\<lparr>cc_endpoint = ''https://docs.openai.azure.com'', cc_deployment_name = None, cc_credential = ApiKey ''k1''\<rparr>"
             and question = "''wut is Azure Blob torage''" and query = "JStr ''reply of rewrite-agent''"])
       (simp_all add: getenv_default_def load_dotenv_def py_str_eval agent_run_eval)
  then show ?thesis by simp
qed

text \<open>
  Claim C28: spec scenario A through src/agents-in-workflow/main.py with
  \<open>MODE=cli\<close>: with the endpoint and the deployment set, the session
  prints the loaded configuration with the key masked, the banner, the
  summarize agent's answer and \<open>Goodbye!\<close>, and enters and exits the
  four resources in order, as src/main.py's session does, since the patched
  \<open>run_stream\<close> yields the events of the original.
\<close>

theorem cli_session_answers_aiw:
  assumes mode: "getenv_default env ''MODE'' ''devui'' = ''cli''"
    and ep: "load_dotenv env dotenv ''AZURE_OPENAI_ENDPOINT'' = Some endpoint" "endpoint \<noteq> []"
    and dep: "load_dotenv env dotenv ''AZURE_OPENAI_RESPONSES_DEPLOYMENT_NAME'' = Some deployment"
      "deployment \<noteq> []"
    and cc: "cc = \<lparr>cc_endpoint = endpoint, cc_deployment_name = Some deployment,
                 cc_credential = DefaultAzureCredential\<rparr>"
    and enter: "\<forall>r. enter r = None"
    and input: "stdin w = [question, ''exit'']"
    and q: "py_strip question \<noteq> []" "py_lower (py_strip question) \<notin> {''exit'', ''quit''}"
    and run: "doc_respond svc (create_rewrite_agent cc) (JStr (py_strip question)) = Some (Inr query)"
      "doc_respond svc (fst (create_docs_agent cc)) query = Some (Inr answer_json)"
      "doc_respond svc (create_summarize_agent cc) answer_json = Some (Inr summary)"
  shows "main_aiw env dotenv svc enter w =
           Some (CliEnded Finished,
                 w\<lparr>stdin := [],
                   stdout := stdout w @
                     ''Loaded environment variables: ENDPOINT='' @ endpoint @ '', DEPLOYMENT='' @ deployment @
                     '', API_KEY='' @ (if py_truthy (load_dotenv env dotenv ''AZURE_OPENAI_API_KEY'') then ''***'' else ''None'') @
                     ''\<newline>'' @ cli_banner @ ''You: '' @ ''Agent: '' @ json_text summary @
                     ''\<newline>\<newline>'' @ ''You: Goodbye!\<newline>'',
                   res_log := res_log w @ map Acquire [''Microsoft Learn MCP'', ''rewrite-agent'', ''microsoft-docs-agent'', ''summarize-agent''] @
                              map Release (rev [''Microsoft Learn MCP'', ''rewrite-agent'', ''microsoft-docs-agent'', ''summarize-agent''])\<rparr>)"
  using repo_session_answers [OF enter _ q run,
          where w = "w\<lparr>stdout := stdout w @ fst (snd (create_workflow_aiw env dotenv)) @ cli_banner\<rparr>"] input
  by (simp add: main_aiw_cli [OF mode ep, unfolded dep, folded cc] create_workflow_aiw_configured [OF ep]
                dep py_fmt_opt_def)

theorem cli_session_answers_aiw_witness:
  "main_aiw [''MODE'' \<mapsto> ''cli'']
     [''AZURE_OPENAI_ENDPOINT'' \<mapsto> ''https://docs.openai.azure.com'',
      ''AZURE_OPENAI_RESPONSES_DEPLOYMENT_NAME'' \<mapsto> ''gpt-4o'']
     \<lparr>infer = \<lambda>a ms. Inr (FinalReply
            (if agent_name a = ''microsoft-docs-agent''
             then dump_docs_response \<lparr>answer = ''Object storage for unstructured data.'',
                    sources = [''https://learn.microsoft.com/azure/storage/blobs/'']\<rparr>
             else JStr (''reply of '' @ agent_name a))),
         call_tool = \<lambda>t op args. Inr JNull\<rparr>
     (\<lambda>r. None) \<lparr>stdin = [''wut is Azure Blob torage'', ''exit''], stdout = [], res_log = []\<rparr> =
   Some (CliEnded Finished,
     \<lparr>stdin = [],
      stdout = ''Loaded environment variables: ENDPOINT=https://docs.openai.azure.com, DEPLOYMENT=gpt-4o, API_KEY=None\<newline>'' @
               cli_banner @ ''You: Agent: reply of summarize-agent\<newline>\<newline>You: Goodbye!\<newline>'',
      res_log = [Acquire ''Microsoft Learn MCP'', Acquire ''rewrite-agent'', Acquire ''microsoft-docs-agent'',
                 Acquire ''summarize-agent'', Release ''summarize-agent'', Release ''microsoft-docs-agent'',
                 Release ''rewrite-agent'', Release ''Microsoft Learn MCP'']\<rparr>)"
proof -
  let ?svc = "\<lparr>infer = \<lambda>a ms. Inr (FinalReply
            (if agent_name a = ''microsoft-docs-agent''
             then dump_docs_response \<lparr>answer = ''Object storage for unstructured data.'',
                    sources = [''https://learn.microsoft.com/azure/storage/blobs/'']\<rparr>
             else JStr (''reply of '' @ agent_name a))),
         call_tool = \<lambda>t op args. Inr JNull\<rparr>"
  let ?cc = "\<lparr>cc_endpoint = ''https://docs.openai.azure.com'', cc_deployment_name = Some ''gpt-4o'',
              cc_credential = DefaultAzureCredential\<rparr>"
  have run: "doc_respond ?svc (create_rewrite_agent ?cc) (JStr (py_strip ''wut is Azure Blob torage'')) =
               Some (Inr (JStr ''reply of rewrite-agent''))"
    "doc_respond ?svc (fst (create_docs_agent ?cc)) (JStr ''reply of rewrite-agent'') =
       Some (Inr (dump_docs_response \<lparr>answer = ''Object storage for unstructured data.'',
                    sources = [''https://learn.microsoft.com/azure/storage/blobs/'']\<rparr>))"
    "doc_respond ?svc (create_summarize_agent ?cc)
       (dump_docs_response \<lparr>answer = ''Object storage for unstructured data.'',
                    sources = [''https://learn.microsoft.com/azure/storage/blobs/'']\<rparr>) =
       Some (Inr (JStr ''reply of summarize-agent''))"
    by (simp_all add: py_str_eval agent_run_eval)
  have q: "py_strip ''wut is Azure Blob torage'' \<noteq> []"
    "py_lower (py_strip ''wut is Azure Blob torage'') \<notin> {''exit'', ''quit''}"
    by (simp_all add: py_str_eval)
  have mode: "getenv_default [''MODE'' \<mapsto> ''cli''] ''MODE'' ''devui'' = ''cli''"
    by (simp add: getenv_default_def)
  have ep: "load_dotenv [''MODE'' \<mapsto> ''cli''] [''AZURE_OPENAI_ENDPOINT'' \<mapsto> ''https://docs.openai.azure.com'',
      ''AZURE_OPENAI_RESPONSES_DEPLOYMENT_NAME'' \<mapsto> ''gpt-4o''] ''AZURE_OPENAI_ENDPOINT'' = Some ''https://docs.openai.azure.com''"
    and dep: "load_dotenv [''MODE'' \<mapsto> ''cli''] [''AZURE_OPENAI_ENDPOINT'' \<mapsto> ''https://docs.openai.azure.com'',
      ''AZURE_OPENAI_RESPONSES_DEPLOYMENT_NAME'' \<mapsto> ''gpt-4o''] ''AZURE_OPENAI_RESPONSES_DEPLOYMENT_NAME'' = Some ''gpt-4o''"
    by (simp_all add: load_dotenv_def)
  from cli_session_answers_aiw
    [where w = "\<lparr>stdin = [''wut is Azure Blob torage'', ''exit''], stdout = [], res_log = []\<rparr>",
     OF mode ep _ dep _ refl _ _ q run]
  show ?thesis by (simp add: load_dotenv_def py_truthy_def json_text_def)
qed

end
